theory Spec2Isabelle
  imports Main "HOL-Library.Word"
begin

section \<open>The C++ library operations the client relies on\<close>

text \<open>
  The client (\<^verbatim>\<open>src/native/src/mygramclient.cpp\<close>) is written against
  \<^verbatim>\<open>std::string\<close>, \<^verbatim>\<open>std::istringstream\<close> and the \<^verbatim>\<open>std::sto*\<close> conversions.
  A \<^verbatim>\<open>std::string\<close> is a \<^typ>\<open>string\<close> (a list of bytes). A C++ exception leaving
  a function is a value: \<open>Raise e\<close>.
\<close>

datatype exn = invalid_argument | out_of_range

datatype 'a raises = Raise exn | Return 'a

text \<open>\<^verbatim>\<open>s.find(pat) == 0\<close>: \<open>str_find s pat\<close> is the first position where \<open>pat\<close>
  occurs in \<open>s\<close>, \<open>None\<close> for \<^verbatim>\<open>npos\<close>.\<close>

primrec str_find :: "string \<Rightarrow> string \<Rightarrow> nat option" where
  "str_find [] pat = (if pat = [] then Some 0 else None)"
| "str_find (c # cs) pat =
     (if take (length pat) (c # cs) = pat then Some 0
      else map_option Suc (str_find cs pat))"

text \<open>\<^verbatim>\<open>s.find(ch)\<close> for a single character.\<close>

primrec find_char :: "string \<Rightarrow> char \<Rightarrow> nat option" where
  "find_char [] ch = None"
| "find_char (c # cs) ch = (if c = ch then Some 0 else map_option Suc (find_char cs ch))"

text \<open>\<^verbatim>\<open>s.substr(pos)\<close> throws \<^verbatim>\<open>std::out_of_range\<close> when \<open>pos > s.size()\<close>.\<close>

definition substr :: "string \<Rightarrow> nat \<Rightarrow> string raises" where
  "substr s pos = (if length s < pos then Raise out_of_range else Return (drop pos s))"

text \<open>\<^verbatim>\<open>isspace\<close> and \<^verbatim>\<open>isdigit\<close> in the "C" locale.\<close>

definition isspace :: "char \<Rightarrow> bool" where
  "isspace c = (c = CHR 0x20 \<or> c = CHR 0x09 \<or> c = CHR 0x0A \<or> c = CHR 0x0B \<or> c = CHR 0x0C \<or> c = CHR 0x0D)"

definition isdigit :: "char \<Rightarrow> bool" where
  "isdigit c = (48 \<le> (of_char c :: nat) \<and> (of_char c :: nat) \<le> 57)"

definition nonspace :: "char \<Rightarrow> bool" where
  "nonspace c = (\<not> isspace c)"

text \<open>\<^verbatim>\<open>ostream << n\<close> for an unsigned integer: its decimal digits.\<close>

fun decimal :: "nat \<Rightarrow> string" where
  "decimal n = (if n < 10 then [char_of (48 + n)]
                else decimal (n div 10) @ [char_of (48 + n mod 10)])"

declare decimal.simps [simp del]

text \<open>The value of a run of decimal digits, most significant first.\<close>

definition digits_value :: "string \<Rightarrow> nat" where
  "digits_value ds = foldl (\<lambda>acc c. 10 * acc + ((of_char c :: nat) - 48)) 0 ds"

text \<open>The number syntax shared by \<^verbatim>\<open>strtoull\<close> and \<^verbatim>\<open>num_get\<close> in base 10, after leading
  white space: an optional sign, then digits. The result is the sign, the digits and the
  unread rest.\<close>

definition scan_number :: "string \<Rightarrow> bool \<times> string \<times> string" where
  "scan_number s =
     (let (neg, t) = (case s of
                        [] \<Rightarrow> (False, [])
                      | c # cs \<Rightarrow> if c = CHR ''-'' then (True, cs)
                                  else if c = CHR ''+'' then (False, cs)
                                  else (False, s))
      in (neg, takeWhile isdigit t, dropWhile isdigit t))"

text \<open>\<^verbatim>\<open>std::stoull(value)\<close>: \<^verbatim>\<open>std::invalid_argument\<close> when no digit can be read,
  \<^verbatim>\<open>std::out_of_range\<close> when the magnitude exceeds \<open>2^64 - 1\<close>; a leading minus negates
  modulo \<open>2^64\<close>; characters after the digits are not looked at.\<close>

definition stoull :: "string \<Rightarrow> 64 word raises" where
  "stoull s =
     (let (neg, ds, rest) = scan_number (dropWhile isspace s) in
      if ds = [] then Raise invalid_argument
      else if 2 ^ 64 \<le> digits_value ds then Raise out_of_range
      else Return (if neg then - word_of_nat (digits_value ds) else word_of_nat (digits_value ds)))"

text \<open>\<^verbatim>\<open>std::stoul(value)\<close> where \<^verbatim>\<open>unsigned long\<close> has 64 bits (LP64, the platforms
  with the POSIX socket headers the client includes).\<close>

definition stoul :: "string \<Rightarrow> 64 word raises" where
  "stoul s = stoull s"

subsection \<open>Input string streams\<close>

text \<open>A \<^verbatim>\<open>std::istringstream\<close>: the unread characters and the fail bit. Once the fail
  bit is set every extraction leaves its target unchanged.\<close>

record istream =
  unread :: string
  failbit :: bool

definition istringstream :: "string \<Rightarrow> istream" where
  "istringstream s = \<lparr>unread = s, failbit = False\<rparr>"

text \<open>\<^verbatim>\<open>iss >> str\<close>: skip white space, then read up to the next white space. \<open>old\<close> is
  the variable's value before, kept when nothing can be read.\<close>

definition extract_string :: "string \<Rightarrow> istream \<Rightarrow> string \<times> istream" where
  "extract_string old iss =
     (if failbit iss then (old, iss)
      else let b = dropWhile isspace (unread iss) in
        if b = [] then (old, \<lparr>unread = [], failbit = True\<rparr>)
        else (takeWhile nonspace b, \<lparr>unread = dropWhile nonspace b, failbit = False\<rparr>))"

text \<open>\<^verbatim>\<open>iss >> n\<close> for \<^verbatim>\<open>uint64_t n\<close>: skip white space, read a sign and digits. With no
  digit the target becomes 0 and the fail bit is set; on overflow the target becomes the
  largest value and the fail bit is set.\<close>

definition extract_uint64 :: "64 word \<Rightarrow> istream \<Rightarrow> 64 word \<times> istream" where
  "extract_uint64 old iss =
     (if failbit iss then (old, iss)
      else let b = dropWhile isspace (unread iss) in
        if b = [] then (old, \<lparr>unread = [], failbit = True\<rparr>)
        else let (neg, ds, rest) = scan_number b in
          if ds = [] then (0, \<lparr>unread = rest, failbit = True\<rparr>)
          else if 2 ^ 64 \<le> digits_value ds then (- 1, \<lparr>unread = rest, failbit = True\<rparr>)
          else (if neg then - word_of_nat (digits_value ds) else word_of_nat (digits_value ds),
                \<lparr>unread = rest, failbit = False\<rparr>))"

text \<open>\<^verbatim>\<open>while (iss >> token) tokens.push_back(token)\<close>: with the fail bit clear, the
  white-space separated words of the unread characters.\<close>

function (sequential) words :: "string \<Rightarrow> string list" where
  "words s =
     (let b = dropWhile isspace s in
      if b = [] then [] else takeWhile nonspace b # words (dropWhile nonspace b))"
  by pat_completeness auto
termination
proof (relation "measure length")
  show "wf (measure length)" by simp
next
  fix s :: string and b
  assume b: "b = dropWhile isspace s" and ne: "b \<noteq> []"
  have "nonspace (hd b)"
    using ne b hd_dropWhile [of isspace s] by (simp add: nonspace_def)
  then have "length (dropWhile nonspace b) < length b"
    using ne by (cases b) (auto simp: le_imp_less_Suc length_dropWhile_le)
  also have "length b \<le> length s"
    using b by (simp add: length_dropWhile_le)
  finally show "(dropWhile nonspace b, s) \<in> measure length" by simp
qed

declare words.simps [simp del]

definition read_tokens :: "istream \<Rightarrow> string list" where
  "read_tokens iss = (if failbit iss then [] else words (unread iss))"

text \<open>\<^verbatim>\<open>while (std::getline(iss, line, delim))\<close>: the pieces between delimiters; a last
  piece is read when characters remain after the last delimiter.\<close>

function getlines :: "char \<Rightarrow> string \<Rightarrow> string list" where
  "getlines delim s =
     (if s = [] then []
      else takeWhile (\<lambda>c. c \<noteq> delim) s # getlines delim (drop 1 (dropWhile (\<lambda>c. c \<noteq> delim) s)))"
  by pat_completeness auto
termination
proof (relation "measure (\<lambda>(delim, s). length s)")
  show "wf (measure (\<lambda>(delim, s). length s))" by simp
next
  fix delim :: char and s :: string
  assume "s \<noteq> []"
  moreover have "length (dropWhile (\<lambda>c. c \<noteq> delim) s) \<le> length s"
    by (rule length_dropWhile_le)
  ultimately show "((delim, drop 1 (dropWhile (\<lambda>c. c \<noteq> delim) s)), (delim, s))
      \<in> measure (\<lambda>(delim, s). length s)"
    by (cases s) auto
qed

declare getlines.simps [simp del]

section \<open>Data model\<close>

text \<open>Modelled from the spec: the declarations of \<^verbatim>\<open>ClientConfig\<close>, \<^verbatim>\<open>Error\<close>,
  \<^verbatim>\<open>DebugInfo\<close>, \<^verbatim>\<open>SearchResponse\<close>, \<^verbatim>\<open>CountResponse\<close>, \<^verbatim>\<open>Document\<close>,
  \<^verbatim>\<open>ServerInfo\<close> and \<^verbatim>\<open>ReplicationStatus\<close> (\<^verbatim>\<open>mygramclient.h\<close>) are not among the
  sources. The fields are those the spec lists and the client assigns. An \<^verbatim>\<open>Error\<close> is
  built from its message alone (\<^verbatim>\<open>Error(msg)\<close>), and where an \<^verbatim>\<open>Error\<close> is returned
  from a function of type \<^verbatim>\<open>std::optional<std::string>\<close> it is read as its message. The
  fields of \<^verbatim>\<open>DebugInfo\<close> are optional ("absent is not zero"); counters of a fresh
  \<^verbatim>\<open>ServerInfo\<close> are 0 and \<^verbatim>\<open>running\<close> of a fresh \<^verbatim>\<open>ReplicationStatus\<close> is false.
  The type \<open>'d\<close> stands for \<^verbatim>\<open>double\<close>.\<close>

record ClientConfig =
  host :: string
  port :: nat
  timeout_ms :: nat
  recv_buffer_size :: nat

datatype Error = Error (message: string)

type_synonym 'a variant = "Error + 'a"

record 'd DebugInfo =
  query_time_ms :: "'d option"
  index_time_ms :: "'d option"
  filter_time_ms :: "'d option"
  terms :: "32 word option"
  ngrams :: "32 word option"
  candidates :: "64 word option"
  after_intersection :: "64 word option"
  after_not :: "64 word option"
  after_filters :: "64 word option"
  final :: "64 word option"
  optimization :: "string option"

definition DebugInfo_init :: "'d DebugInfo" where
  "DebugInfo_init =
     \<lparr>query_time_ms = None, index_time_ms = None, filter_time_ms = None, terms = None,
      ngrams = None, candidates = None, after_intersection = None, after_not = None,
      after_filters = None, final = None, optimization = None\<rparr>"

record 'd SearchResponse =
  total_count :: "64 word"
  results :: "string list"
  debug :: "'d DebugInfo option"

record 'd CountResponse =
  count :: "64 word"
  count_debug :: "'d DebugInfo option"

record Document =
  primary_key :: string
  doc_fields :: "(string \<times> string) list"

record ServerInfo =
  version :: string
  uptime_seconds :: "64 word"
  total_requests :: "64 word"
  active_connections :: "64 word"
  index_size_bytes :: "64 word"
  doc_count :: "64 word"
  tables :: "string list"

definition ServerInfo_init :: ServerInfo where
  "ServerInfo_init =
     \<lparr>version = [], uptime_seconds = 0, total_requests = 0, active_connections = 0,
      index_size_bytes = 0, doc_count = 0, tables = []\<rparr>"

record ReplicationStatus =
  running :: bool
  gtid :: string
  status_str :: string

section \<open>Protocol helpers\<close>

definition kErrorPrefixLen :: nat where "kErrorPrefixLen = 6"
definition kSavedPrefixLen :: nat where "kSavedPrefixLen = 9"
definition kLoadedPrefixLen :: nat where "kLoadedPrefixLen = 10"

text \<open>\<^verbatim>\<open>ParseKeyValuePairs\<close>: every white-space separated token with a \<open>=\<close> gives the
  pair of what stands before the first \<open>=\<close> and what stands after it.\<close>

definition split_pair :: "string \<Rightarrow> (string \<times> string) option" where
  "split_pair token =
     (case find_char token (CHR ''='') of
        None \<Rightarrow> None
      | Some pos \<Rightarrow> Some (take pos token, drop (pos + 1) token))"

definition ParseKeyValuePairs :: "string \<Rightarrow> (string \<times> string) list" where
  "ParseKeyValuePairs str = List.map_filter split_pair (read_tokens (istringstream str))"

text \<open>\<^verbatim>\<open>ParseDebugInfo\<close>. \<open>stod\<close> is \<^verbatim>\<open>std::stod\<close>, a parameter: it returns a
  \<^verbatim>\<open>double\<close> or throws. One step of the loop over the tokens after the marker:\<close>

definition debug_token :: "(string \<Rightarrow> 'd raises) \<Rightarrow> 'd DebugInfo \<Rightarrow> string \<Rightarrow> 'd DebugInfo raises" where
  "debug_token stod info token =
     (case find_char token (CHR ''='') of
        None \<Rightarrow> Return info
      | Some pos \<Rightarrow>
          let key = take pos token; value = drop (pos + 1) token in
          if key = ''query_time'' then
            map_raises (\<lambda>v. info\<lparr>query_time_ms := Some v\<rparr>) (stod value)
          else if key = ''index_time'' then
            map_raises (\<lambda>v. info\<lparr>index_time_ms := Some v\<rparr>) (stod value)
          else if key = ''filter_time'' then
            map_raises (\<lambda>v. info\<lparr>filter_time_ms := Some v\<rparr>) (stod value)
          else if key = ''terms'' then
            map_raises (\<lambda>v. info\<lparr>terms := Some (ucast v)\<rparr>) (stoul value)
          else if key = ''ngrams'' then
            map_raises (\<lambda>v. info\<lparr>ngrams := Some (ucast v)\<rparr>) (stoul value)
          else if key = ''candidates'' then
            map_raises (\<lambda>v. info\<lparr>candidates := Some v\<rparr>) (stoull value)
          else if key = ''after_intersection'' then
            map_raises (\<lambda>v. info\<lparr>after_intersection := Some v\<rparr>) (stoull value)
          else if key = ''after_not'' then
            map_raises (\<lambda>v. info\<lparr>after_not := Some v\<rparr>) (stoull value)
          else if key = ''after_filters'' then
            map_raises (\<lambda>v. info\<lparr>after_filters := Some v\<rparr>) (stoull value)
          else if key = ''final'' then
            map_raises (\<lambda>v. info\<lparr>final := Some v\<rparr>) (stoull value)
          else if key = ''optimization'' then
            Return (info\<lparr>optimization := Some value\<rparr>)
          else Return info)"

primrec debug_tokens :: "(string \<Rightarrow> 'd raises) \<Rightarrow> string list \<Rightarrow> 'd DebugInfo \<Rightarrow> 'd DebugInfo raises" where
  "debug_tokens stod [] info = Return info"
| "debug_tokens stod (token # rest) info =
     (case debug_token stod info token of
        Raise e \<Rightarrow> Raise e
      | Return info' \<Rightarrow> debug_tokens stod rest info')"

definition ParseDebugInfo :: "(string \<Rightarrow> 'd raises) \<Rightarrow> string list \<Rightarrow> nat \<Rightarrow> 'd DebugInfo option raises" where
  "ParseDebugInfo stod tokens start_index =
     (if length tokens \<le> start_index \<or> tokens ! start_index \<noteq> ''DEBUG'' then Return None
      else map_raises Some (debug_tokens stod (drop (start_index + 1) tokens) DebugInfo_init))"

text \<open>\<^verbatim>\<open>EscapeQueryString\<close>: the first loop looks for a character that needs quoting, the
  second appends to \<open>result\<close>.\<close>

primrec needs_quotes :: "string \<Rightarrow> bool" where
  "needs_quotes [] = False"
| "needs_quotes (character # rest) =
     (if character = CHR 0x20 \<or> character = CHR 0x09 \<or> character = CHR 0x0A \<or>
         character = CHR 0x0D \<or> character = CHR 0x22 \<or> character = CHR 0x27
      then True else needs_quotes rest)"

primrec escape_into :: "string \<Rightarrow> string \<Rightarrow> string" where
  "escape_into result [] = result"
| "escape_into result (character # rest) =
     escape_into
       (if character = CHR 0x22 \<or> character = CHR 0x5C
        then result @ [CHR 0x5C] @ [character] else result @ [character])
       rest"

definition EscapeQueryString :: "string \<Rightarrow> string" where
  "EscapeQueryString str =
     (if needs_quotes str then escape_into [CHR 0x22] str @ [CHR 0x22] else str)"

section \<open>The client\<close>

text \<open>The operating system, as \<^verbatim>\<open>Connect\<close> meets it: what \<^verbatim>\<open>socket\<close>, \<^verbatim>\<open>inet_pton\<close>
  and \<^verbatim>\<open>connect\<close> return, and the text of \<^verbatim>\<open>strerror(errno)\<close> after a failure.\<close>

record syscalls =
  socket_ret :: int
  inet_pton_ret :: int
  connect_ret :: int
  strerror_errno :: string

text \<open>The connection, as \<^verbatim>\<open>SendCommand\<close> meets it: what happens to the bytes sent.
  \<open>SendFailed e\<close>: \<^verbatim>\<open>send\<close> returned a negative value, \<open>e\<close> the error text;
  \<open>RecvFailed e\<close>: \<^verbatim>\<open>recv\<close> returned a negative value; \<open>Received bytes\<close>: \<^verbatim>\<open>recv\<close>
  returned \<open>length bytes\<close> and stored \<open>bytes\<close> (never more than the buffer's capacity,
  which the kernel enforces).\<close>

datatype reply = SendFailed string | RecvFailed string | Received string

type_synonym transport = "string \<Rightarrow> reply"

text \<open>A server that answers every command with the same bytes.\<close>

definition answering :: "string \<Rightarrow> transport" where
  "answering bytes = (\<lambda>sent. Received bytes)"

record Impl =
  config :: ClientConfig
  sock :: int
  last_error :: string

definition Impl_init :: "ClientConfig \<Rightarrow> Impl" where
  "Impl_init cfg = \<lparr>config = cfg, sock = - 1, last_error = []\<rparr>"

definition Connect :: "syscalls \<Rightarrow> Impl \<Rightarrow> string option \<times> Impl" where
  "Connect sys st =
     (if 0 \<le> sock st then (Some ''Already connected'', st)
      else let st = st\<lparr>sock := socket_ret sys\<rparr> in
        if sock st < 0 then
          (let st = st\<lparr>last_error := ''Failed to create socket: '' @ strerror_errno sys\<rparr>
           in (Some (last_error st), st))
        else if inet_pton_ret sys \<le> 0 then
          (let st = st\<lparr>last_error := ''Invalid address: '' @ host (config st), sock := - 1\<rparr>
           in (Some (last_error st), st))
        else if connect_ret sys < 0 then
          (let st = st\<lparr>last_error := ''Connection failed: '' @ strerror_errno sys, sock := - 1\<rparr>
           in (Some (last_error st), st))
        else (None, st))"

definition Disconnect :: "Impl \<Rightarrow> Impl" where
  "Disconnect st = (if 0 \<le> sock st then st\<lparr>sock := - 1\<rparr> else st)"

definition IsConnected :: "Impl \<Rightarrow> bool" where
  "IsConnected st = (0 \<le> sock st)"

definition GetLastError :: "Impl \<Rightarrow> string" where
  "GetLastError st = last_error st"

text \<open>The loop that removes trailing line ends from the response.\<close>

function strip_trailing :: "string \<Rightarrow> string" where
  "strip_trailing response =
     (if response \<noteq> [] \<and> (last response = CHR 0x0A \<or> last response = CHR 0x0D)
      then strip_trailing (butlast response) else response)"
  by pat_completeness auto
termination
  by (relation "measure length") auto

declare strip_trailing.simps [simp del]

definition SendCommand :: "transport \<Rightarrow> Impl \<Rightarrow> string \<Rightarrow> string variant \<times> Impl" where
  "SendCommand tr st command =
     (if \<not> IsConnected st then
        (let st = st\<lparr>last_error := ''Not connected''\<rparr> in (Inl (Error (last_error st)), st))
      else case tr (command @ [CHR 0x0D, CHR 0x0A]) of
        SendFailed e \<Rightarrow>
          (let st = st\<lparr>last_error := ''Failed to send command: '' @ e\<rparr>
           in (Inl (Error (last_error st)), st))
      | RecvFailed e \<Rightarrow>
          (let st = st\<lparr>last_error := ''Failed to receive response: '' @ e\<rparr>
           in (Inl (Error (last_error st)), st))
      | Received bytes \<Rightarrow>
          if bytes = [] then
            (let st = st\<lparr>last_error := ''Connection closed by server''\<rparr>
             in (Inl (Error (last_error st)), st))
          else (Inr (strip_trailing bytes), st))"

subsection \<open>Search\<close>

text \<open>The command line \<^verbatim>\<open>Search\<close> builds before it sends it.\<close>

definition Search_cmd ::
  "string \<Rightarrow> string \<Rightarrow> 32 word \<Rightarrow> 32 word \<Rightarrow> string list \<Rightarrow> string list \<Rightarrow>
   (string \<times> string) list \<Rightarrow> string \<Rightarrow> bool \<Rightarrow> string" where
  "Search_cmd table query limit offset and_terms not_terms filters sort_column sort_desc =
     ''SEARCH '' @ table @ '' '' @ EscapeQueryString query
     @ concat (map (\<lambda>term. '' AND '' @ EscapeQueryString term) and_terms)
     @ concat (map (\<lambda>term. '' NOT '' @ EscapeQueryString term) not_terms)
     @ concat (map (\<lambda>(key, value). '' FILTER '' @ key @ '' = '' @ EscapeQueryString value) filters)
     @ (if sort_column \<noteq> [] then
          '' SORT '' @ sort_column @ (if sort_desc then '' DESC'' else '' ASC'')
        else if \<not> sort_desc then '' SORT ASC''
        else [])
     @ (if 0 < limit \<and> 0 < offset then
          '' LIMIT '' @ decimal (unat offset) @ '','' @ decimal (unat limit)
        else if 0 < limit then '' LIMIT '' @ decimal (unat limit)
        else [])"

text \<open>The position of the first \<^verbatim>\<open>DEBUG\<close> token, the number of tokens when there is none.\<close>

primrec debug_index :: "string list \<Rightarrow> nat" where
  "debug_index [] = 0"
| "debug_index (token # rest) = (if token = ''DEBUG'' then 0 else Suc (debug_index rest))"

text \<open>What \<^verbatim>\<open>Search\<close> makes of the response line.\<close>

definition Search_response :: "(string \<Rightarrow> 'd raises) \<Rightarrow> string \<Rightarrow> 'd SearchResponse variant raises" where
  "Search_response stod response =
     (if str_find response ''ERROR'' = Some 0 then
        map_raises (\<lambda>m. Inl (Error m)) (substr response kErrorPrefixLen)
      else if str_find response ''OK RESULTS'' \<noteq> Some 0 then
        Return (Inl (Error ''Unexpected response format''))
      else
        let iss = istringstream response;
            (status, iss) = extract_string [] iss;
            (results_str, iss) = extract_string [] iss;
            (n, iss) = extract_uint64 0 iss;
            tokens = read_tokens iss;
            resp = \<lparr>total_count = n, results = take (debug_index tokens) tokens, debug = None\<rparr>
        in if debug_index tokens < length tokens then
             map_raises (\<lambda>d. Inr (resp\<lparr>debug := d\<rparr>)) (ParseDebugInfo stod tokens (debug_index tokens))
           else Return (Inr resp))"

definition Search ::
  "(string \<Rightarrow> 'd raises) \<Rightarrow> transport \<Rightarrow> Impl \<Rightarrow> string \<Rightarrow> string \<Rightarrow> 32 word \<Rightarrow> 32 word \<Rightarrow>
   string list \<Rightarrow> string list \<Rightarrow> (string \<times> string) list \<Rightarrow> string \<Rightarrow> bool \<Rightarrow>
   'd SearchResponse variant raises \<times> Impl" where
  "Search stod tr st table query limit offset and_terms not_terms filters sort_column sort_desc =
     (case SendCommand tr st
             (Search_cmd table query limit offset and_terms not_terms filters sort_column sort_desc) of
        (Inl err, st') \<Rightarrow> (Return (Inl err), st')
      | (Inr response, st') \<Rightarrow> (Search_response stod response, st'))"

subsection \<open>Count\<close>

definition Count_cmd ::
  "string \<Rightarrow> string \<Rightarrow> string list \<Rightarrow> string list \<Rightarrow> (string \<times> string) list \<Rightarrow> string" where
  "Count_cmd table query and_terms not_terms filters =
     ''COUNT '' @ table @ '' '' @ EscapeQueryString query
     @ concat (map (\<lambda>term. '' AND '' @ EscapeQueryString term) and_terms)
     @ concat (map (\<lambda>term. '' NOT '' @ EscapeQueryString term) not_terms)
     @ concat (map (\<lambda>(key, value). '' FILTER '' @ key @ '' = '' @ EscapeQueryString value) filters)"

definition Count_response :: "(string \<Rightarrow> 'd raises) \<Rightarrow> string \<Rightarrow> 'd CountResponse variant raises" where
  "Count_response stod response =
     (if str_find response ''ERROR'' = Some 0 then
        map_raises (\<lambda>m. Inl (Error m)) (substr response kErrorPrefixLen)
      else if str_find response ''OK COUNT'' \<noteq> Some 0 then
        Return (Inl (Error ''Unexpected response format''))
      else
        let iss = istringstream response;
            (status, iss) = extract_string [] iss;
            (count_str, iss) = extract_string [] iss;
            (n, iss) = extract_uint64 0 iss;
            resp = \<lparr>count = n, count_debug = None\<rparr>;
            tokens = read_tokens iss
        in if tokens \<noteq> [] \<and> hd tokens = ''DEBUG'' then
             map_raises (\<lambda>d. Inr (resp\<lparr>count_debug := d\<rparr>)) (ParseDebugInfo stod tokens 0)
           else Return (Inr resp))"

definition Count ::
  "(string \<Rightarrow> 'd raises) \<Rightarrow> transport \<Rightarrow> Impl \<Rightarrow> string \<Rightarrow> string \<Rightarrow> string list \<Rightarrow> string list \<Rightarrow>
   (string \<times> string) list \<Rightarrow> 'd CountResponse variant raises \<times> Impl" where
  "Count stod tr st table query and_terms not_terms filters =
     (case SendCommand tr st (Count_cmd table query and_terms not_terms filters) of
        (Inl err, st') \<Rightarrow> (Return (Inl err), st')
      | (Inr response, st') \<Rightarrow> (Count_response stod response, st'))"

subsection \<open>Get\<close>

definition Get_response :: "string \<Rightarrow> Document variant raises" where
  "Get_response response =
     (if str_find response ''ERROR'' = Some 0 then
        map_raises (\<lambda>m. Inl (Error m)) (substr response kErrorPrefixLen)
      else if str_find response ''OK DOC'' \<noteq> Some 0 then
        Return (Inl (Error ''Unexpected response format''))
      else
        let iss = istringstream response;
            (status, iss) = extract_string [] iss;
            (doc_str, iss) = extract_string [] iss;
            (doc_pk, iss) = extract_string [] iss;
            rest = (if failbit iss then [] else takeWhile (\<lambda>c. c \<noteq> CHR 0x0A) (unread iss))
        in Return (Inr \<lparr>primary_key = doc_pk, doc_fields = ParseKeyValuePairs rest\<rparr>))"

definition Get :: "transport \<Rightarrow> Impl \<Rightarrow> string \<Rightarrow> string \<Rightarrow> Document variant raises \<times> Impl" where
  "Get tr st table pk =
     (case SendCommand tr st (''GET '' @ table @ '' '' @ pk) of
        (Inl err, st') \<Rightarrow> (Return (Inl err), st')
      | (Inr response, st') \<Rightarrow> (Get_response response, st'))"

subsection \<open>Info\<close>

primrec find_first_not_of :: "string \<Rightarrow> string \<Rightarrow> nat option" where
  "find_first_not_of [] chars = None"
| "find_first_not_of (c # cs) chars =
     (if c \<in> set chars then map_option Suc (find_first_not_of cs chars) else Some 0)"

definition find_last_not_of :: "string \<Rightarrow> string \<Rightarrow> nat option" where
  "find_last_not_of s chars =
     (case find_first_not_of (rev s) chars of
        None \<Rightarrow> None
      | Some i \<Rightarrow> Some (length s - 1 - i))"

text \<open>The characters \<^verbatim>\<open>" \t\r\n"\<close> trimmed from a value.\<close>

definition info_blank :: string where
  "info_blank = [CHR 0x20, CHR 0x09, CHR 0x0D, CHR 0x0A]"

text \<open>One line of the \<^verbatim>\<open>INFO\<close> response.\<close>

definition info_line :: "ServerInfo \<Rightarrow> string \<Rightarrow> ServerInfo raises" where
  "info_line info line =
     (if line = [] \<or> hd line = CHR ''#'' \<or> hd line = CHR 0x0D then Return info
      else case find_char line (CHR '':'') of
        None \<Rightarrow> Return info
      | Some colon_pos \<Rightarrow>
          let key = take colon_pos line;
              untrimmed = drop (colon_pos + 1) line;
              value = (case (find_first_not_of untrimmed info_blank,
                             find_last_not_of untrimmed info_blank) of
                         (Some start, Some end_pos) \<Rightarrow>
                           take (end_pos - start + 1) (drop start untrimmed)
                       | _ \<Rightarrow> untrimmed)
          in
          if key = ''version'' then Return (info\<lparr>version := value\<rparr>)
          else if key = ''uptime_seconds'' then
            map_raises (\<lambda>v. info\<lparr>uptime_seconds := v\<rparr>) (stoull value)
          else if key = ''total_requests'' then
            map_raises (\<lambda>v. info\<lparr>total_requests := v\<rparr>) (stoull value)
          else if key = ''active_connections'' then
            map_raises (\<lambda>v. info\<lparr>active_connections := v\<rparr>) (stoull value)
          else if key = ''index_size_bytes'' then
            map_raises (\<lambda>v. info\<lparr>index_size_bytes := v\<rparr>) (stoull value)
          else if key = ''doc_count'' \<or> key = ''total_documents'' then
            map_raises (\<lambda>v. info\<lparr>doc_count := v\<rparr>) (stoull value)
          else if key = ''tables'' then
            Return (info\<lparr>tables := tables info @ filter (\<lambda>t. t \<noteq> []) (getlines (CHR '','') value)\<rparr>)
          else Return info)"

primrec info_lines :: "string list \<Rightarrow> ServerInfo \<Rightarrow> ServerInfo raises" where
  "info_lines [] info = Return info"
| "info_lines (line # rest) info =
     (case info_line info line of
        Raise e \<Rightarrow> Raise e
      | Return info' \<Rightarrow> info_lines rest info')"

definition Info_response :: "string \<Rightarrow> ServerInfo variant raises" where
  "Info_response response =
     (if str_find response ''ERROR'' = Some 0 then
        map_raises (\<lambda>m. Inl (Error m)) (substr response kErrorPrefixLen)
      else if str_find response ''OK INFO'' \<noteq> Some 0 then
        Return (Inl (Error ''Unexpected response format''))
      else map_raises Inr (info_lines (drop 1 (getlines (CHR 0x0A) response)) ServerInfo_init))"

definition Info :: "transport \<Rightarrow> Impl \<Rightarrow> ServerInfo variant raises \<times> Impl" where
  "Info tr st =
     (case SendCommand tr st ''INFO'' of
        (Inl err, st') \<Rightarrow> (Return (Inl err), st')
      | (Inr response, st') \<Rightarrow> (Info_response response, st'))"

subsection \<open>GetConfig, Save, Load\<close>

text \<open>These three return \<^verbatim>\<open>std::variant<std::string, Error>\<close>. In their \<^verbatim>\<open>ERROR\<close> branch
  the returned expression is the \<^verbatim>\<open>std::string\<close> \<^verbatim>\<open>response.substr(kErrorPrefixLen)\<close>, not
  wrapped in \<^verbatim>\<open>Error(...)\<close>: the variant holds its \<^verbatim>\<open>std::string\<close> alternative, \<open>Inr\<close>.\<close>

definition GetConfig_response :: "string \<Rightarrow> string variant raises" where
  "GetConfig_response response =
     (if str_find response ''ERROR'' = Some 0 then
        map_raises Inr (substr response kErrorPrefixLen)
      else Return (Inr response))"

definition GetConfig :: "transport \<Rightarrow> Impl \<Rightarrow> string variant raises \<times> Impl" where
  "GetConfig tr st =
     (case SendCommand tr st ''CONFIG'' of
        (Inl err, st') \<Rightarrow> (Return (Inl err), st')
      | (Inr response, st') \<Rightarrow> (GetConfig_response response, st'))"

definition Save_response :: "string \<Rightarrow> string variant raises" where
  "Save_response response =
     (if str_find response ''ERROR'' = Some 0 then
        map_raises Inr (substr response kErrorPrefixLen)
      else if str_find response ''OK SAVED'' \<noteq> Some 0 then
        Return (Inl (Error ''Unexpected response format''))
      else map_raises Inr (substr response kSavedPrefixLen))"

definition Save :: "transport \<Rightarrow> Impl \<Rightarrow> string \<Rightarrow> string variant raises \<times> Impl" where
  "Save tr st filepath =
     (case SendCommand tr st (if filepath = [] then ''SAVE'' else ''SAVE '' @ filepath) of
        (Inl err, st') \<Rightarrow> (Return (Inl err), st')
      | (Inr response, st') \<Rightarrow> (Save_response response, st'))"

definition Load_response :: "string \<Rightarrow> string variant raises" where
  "Load_response response =
     (if str_find response ''ERROR'' = Some 0 then
        map_raises Inr (substr response kErrorPrefixLen)
      else if str_find response ''OK LOADED'' \<noteq> Some 0 then
        Return (Inl (Error ''Unexpected response format''))
      else map_raises Inr (substr response kLoadedPrefixLen))"

definition Load :: "transport \<Rightarrow> Impl \<Rightarrow> string \<Rightarrow> string variant raises \<times> Impl" where
  "Load tr st filepath =
     (case SendCommand tr st (''LOAD '' @ filepath) of
        (Inl err, st') \<Rightarrow> (Return (Inl err), st')
      | (Inr response, st') \<Rightarrow> (Load_response response, st'))"

subsection \<open>Replication and debug switches\<close>

definition GetReplicationStatus_response :: "string \<Rightarrow> ReplicationStatus variant raises" where
  "GetReplicationStatus_response response =
     (if str_find response ''ERROR'' = Some 0 then
        map_raises (\<lambda>m. Inl (Error m)) (substr response kErrorPrefixLen)
      else if str_find response ''OK REPLICATION'' \<noteq> Some 0 then
        Return (Inl (Error ''Unexpected response format''))
      else
        Return (Inr (foldl
          (\<lambda>status (key, value).
             if key = ''status'' then status\<lparr>running := (value = ''running'')\<rparr>
             else if key = ''gtid'' then status\<lparr>gtid := value\<rparr>
             else status)
          \<lparr>running = False, gtid = [], status_str = response\<rparr>
          (ParseKeyValuePairs response))))"

definition GetReplicationStatus :: "transport \<Rightarrow> Impl \<Rightarrow> ReplicationStatus variant raises \<times> Impl" where
  "GetReplicationStatus tr st =
     (case SendCommand tr st ''REPLICATION STATUS'' of
        (Inl err, st') \<Rightarrow> (Return (Inl err), st')
      | (Inr response, st') \<Rightarrow> (GetReplicationStatus_response response, st'))"

text \<open>\<^verbatim>\<open>StopReplication\<close>, \<^verbatim>\<open>StartReplication\<close>, \<^verbatim>\<open>EnableDebug\<close> and \<^verbatim>\<open>DisableDebug\<close>
  return \<^verbatim>\<open>std::optional<std::string>\<close>: an error message, or nothing on success. The
  four treat the response alike.\<close>

definition switch_response :: "string \<Rightarrow> string option raises" where
  "switch_response response =
     (if str_find response ''ERROR'' = Some 0 then
        map_raises Some (substr response kErrorPrefixLen)
      else Return None)"

definition StopReplication :: "transport \<Rightarrow> Impl \<Rightarrow> string option raises \<times> Impl" where
  "StopReplication tr st =
     (case SendCommand tr st ''REPLICATION STOP'' of
        (Inl err, st') \<Rightarrow> (Return (Some (message err)), st')
      | (Inr response, st') \<Rightarrow> (switch_response response, st'))"

definition StartReplication :: "transport \<Rightarrow> Impl \<Rightarrow> string option raises \<times> Impl" where
  "StartReplication tr st =
     (case SendCommand tr st ''REPLICATION START'' of
        (Inl err, st') \<Rightarrow> (Return (Some (message err)), st')
      | (Inr response, st') \<Rightarrow> (switch_response response, st'))"

definition EnableDebug :: "transport \<Rightarrow> Impl \<Rightarrow> string option raises \<times> Impl" where
  "EnableDebug tr st =
     (case SendCommand tr st ''DEBUG ON'' of
        (Inl err, st') \<Rightarrow> (Return (Some (message err)), st')
      | (Inr response, st') \<Rightarrow> (switch_response response, st'))"

definition DisableDebug :: "transport \<Rightarrow> Impl \<Rightarrow> string option raises \<times> Impl" where
  "DisableDebug tr st =
     (case SendCommand tr st ''DEBUG OFF'' of
        (Inl err, st') \<Rightarrow> (Return (Some (message err)), st')
      | (Inr response, st') \<Rightarrow> (switch_response response, st'))"

section \<open>The tokenizer\<close>

text \<open>Modelled from the spec: \<^verbatim>\<open>GenerateNgrams\<close>, \<^verbatim>\<open>Utf8ToCodepoints\<close> and
  \<^verbatim>\<open>CodepointsToUtf8\<close> are declared in \<^verbatim>\<open>string_utils.h\<close>; their bodies are not among
  the sources. The spec: "sliding window over codepoints, all overlapping windows",
  "shorter-than-n text yields empty output". The two conversions are parameters;
  \<open>windows n cps\<close> slides a window of \<open>n\<close> codepoints over \<open>cps\<close>, one position at a time.\<close>

fun windows :: "nat \<Rightarrow> 'c list \<Rightarrow> 'c list list" where
  "windows n [] = []"
| "windows n (c # cs) =
     (if n \<le> length (c # cs) then take n (c # cs) # windows n cs else [])"

definition GenerateNgrams ::
  "(string \<Rightarrow> 'c list) \<Rightarrow> ('c list \<Rightarrow> string) \<Rightarrow> string \<Rightarrow> int \<Rightarrow> string list" where
  "GenerateNgrams Utf8ToCodepoints CodepointsToUtf8 text n =
     map CodepointsToUtf8 (windows (nat n) (Utf8ToCodepoints text))"

section \<open>Observations used in the statements\<close>

text \<open>The text a \<^verbatim>\<open>std::variant<std::string, Error>\<close> carries, whichever alternative
  holds it.\<close>

definition variant_text :: "string variant \<Rightarrow> string" where
  "variant_text v = (case v of Inl e \<Rightarrow> message e | Inr s \<Rightarrow> s)"

text \<open>A client with the defaults of the binding (\<^verbatim>\<open>CreateClient\<close> in
  \<^verbatim>\<open>binding.cpp\<close>: 127.0.0.1, port 11016, timeout 5000 ms, a 65536-byte buffer), no
  error recorded, connected on descriptor 3.\<close>

definition connected_client :: Impl where
  "connected_client =
     (Impl_init \<lparr>host = ''127.0.0.1'', port = 11016, timeout_ms = 5000,
                  recv_buffer_size = 65536\<rparr>) \<lparr>sock := 3\<rparr>"

section \<open>Term escaping\<close>

lemma needs_quotes_set:
  "needs_quotes s = (set s \<inter> {CHR 0x20, CHR 0x09, CHR 0x0A, CHR 0x0D, CHR 0x22, CHR 0x27} \<noteq> {})"
  by (induction s) auto

lemma escape_into_concat:
  "escape_into result s =
     result @ concat (map (\<lambda>c. if c = CHR 0x22 \<or> c = CHR 0x5C then [CHR 0x5C, c] else [c]) s)"
  by (induction s arbitrary: result) auto

lemma length_escape_into: "length result + length s \<le> length (escape_into result s)"
proof (induction s arbitrary: result)
  case Nil
  show ?case by simp
next
  case (Cons c s)
  have "length (result @ [c]) + length s \<le> length (escape_into (result @ [c]) s)"
       "length (result @ [CHR 0x5C] @ [c]) + length s
          \<le> length (escape_into (result @ [CHR 0x5C] @ [c]) s)"
    by (rule Cons.IH)+
  then show ?case by auto
qed

text \<open>
  Claim C5. \<^verbatim>\<open>EscapeQueryString(s) == s\<close> exactly when \<open>s\<close> contains none of space, tab,
  newline, carriage return, double quote, single quote; otherwise the result is \<open>s\<close> between
  double quotes, with a backslash before every double quote and every backslash of \<open>s\<close>.
\<close>

theorem EscapeQueryString_quoting:
  "((EscapeQueryString s = s) =
      (set s \<inter> {CHR 0x20, CHR 0x09, CHR 0x0A, CHR 0x0D, CHR 0x22, CHR 0x27} = {}))
   \<and> (set s \<inter> {CHR 0x20, CHR 0x09, CHR 0x0A, CHR 0x0D, CHR 0x22, CHR 0x27} \<noteq> {} \<longrightarrow>
        EscapeQueryString s =
          [CHR 0x22]
          @ concat (map (\<lambda>c. if c = CHR 0x22 \<or> c = CHR 0x5C then [CHR 0x5C, c] else [c]) s)
          @ [CHR 0x22])"
proof -
  have longer: "escape_into [CHR 0x22] s @ [CHR 0x22] \<noteq> s"
  proof
    assume "escape_into [CHR 0x22] s @ [CHR 0x22] = s"
    then have "length (escape_into [CHR 0x22] s @ [CHR 0x22]) = length s" by simp
    moreover have "length [CHR 0x22] + length s \<le> length (escape_into [CHR 0x22] s)"
      by (rule length_escape_into)
    ultimately show False by simp
  qed
  show ?thesis
    unfolding EscapeQueryString_def needs_quotes_set
    using longer by (simp add: escape_into_concat)
qed

theorem EscapeQueryString_quoting_witness:
  "EscapeQueryString [CHR ''a'', CHR 0x20, CHR 0x22, CHR 0x5C]
     = [CHR 0x22, CHR ''a'', CHR 0x20, CHR 0x5C, CHR 0x22, CHR 0x5C, CHR 0x5C, CHR 0x22]
   \<and> EscapeQueryString ''hello'' = ''hello''"
  using EscapeQueryString_quoting [of "[CHR ''a'', CHR 0x20, CHR 0x22, CHR 0x5C]"]
    EscapeQueryString_quoting [of "''hello''"]
  by simp

section \<open>The Search command line\<close>

text \<open>
  Claim C3. The command line of \<^verbatim>\<open>Search\<close> is the line without clauses (no sort column,
  descending, limit 0) followed by a sort clause and a limit clause: \<^verbatim>\<open>SORT <col> DESC\<close> or
  \<^verbatim>\<open>SORT <col> ASC\<close> for a non-empty sort column, \<^verbatim>\<open>SORT ASC\<close> for an empty column with
  ascending order, nothing for an empty column with descending order; \<^verbatim>\<open>LIMIT offset,limit\<close>
  when both are positive, \<^verbatim>\<open>LIMIT limit\<close> when only the limit is, nothing when the limit
  is 0, whatever the offset. The two example calls build \<^verbatim>\<open>SEARCH docs hello LIMIT 20,10\<close>
  and \<^verbatim>\<open>SEARCH docs hello SORT ASC LIMIT 20,10\<close>.
\<close>

theorem Search_cmd_policy:
  "(\<exists>sort_clause limit_clause.
     Search_cmd table query limit offset and_terms not_terms filters sort_column sort_desc
       = Search_cmd table query 0 0 and_terms not_terms filters [] True @ sort_clause @ limit_clause
     \<and> (sort_column \<noteq> [] \<and> sort_desc \<longrightarrow> sort_clause = '' SORT '' @ sort_column @ '' DESC'')
     \<and> (sort_column \<noteq> [] \<and> \<not> sort_desc \<longrightarrow> sort_clause = '' SORT '' @ sort_column @ '' ASC'')
     \<and> (sort_column = [] \<and> \<not> sort_desc \<longrightarrow> sort_clause = '' SORT ASC'')
     \<and> (sort_column = [] \<and> sort_desc \<longrightarrow> sort_clause = [])
     \<and> (0 < limit \<and> 0 < offset \<longrightarrow>
          limit_clause = '' LIMIT '' @ decimal (unat offset) @ '','' @ decimal (unat limit))
     \<and> (0 < limit \<and> offset = 0 \<longrightarrow> limit_clause = '' LIMIT '' @ decimal (unat limit))
     \<and> (limit = 0 \<longrightarrow> limit_clause = []))
   \<and> Search_cmd ''docs'' ''hello'' 10 20 [] [] [] [] True = ''SEARCH docs hello LIMIT 20,10''
   \<and> Search_cmd ''docs'' ''hello'' 10 20 [] [] [] [] False
       = ''SEARCH docs hello SORT ASC LIMIT 20,10''"
proof -
  have general: "\<exists>sort_clause limit_clause.
     Search_cmd table query limit offset and_terms not_terms filters sort_column sort_desc
       = Search_cmd table query 0 0 and_terms not_terms filters [] True @ sort_clause @ limit_clause
     \<and> (sort_column \<noteq> [] \<and> sort_desc \<longrightarrow> sort_clause = '' SORT '' @ sort_column @ '' DESC'')
     \<and> (sort_column \<noteq> [] \<and> \<not> sort_desc \<longrightarrow> sort_clause = '' SORT '' @ sort_column @ '' ASC'')
     \<and> (sort_column = [] \<and> \<not> sort_desc \<longrightarrow> sort_clause = '' SORT ASC'')
     \<and> (sort_column = [] \<and> sort_desc \<longrightarrow> sort_clause = [])
     \<and> (0 < limit \<and> 0 < offset \<longrightarrow>
          limit_clause = '' LIMIT '' @ decimal (unat offset) @ '','' @ decimal (unat limit))
     \<and> (0 < limit \<and> offset = 0 \<longrightarrow> limit_clause = '' LIMIT '' @ decimal (unat limit))
     \<and> (limit = 0 \<longrightarrow> limit_clause = [])"
    unfolding Search_cmd_def
    apply (rule exI [of _ "if sort_column \<noteq> [] then
            '' SORT '' @ sort_column @ (if sort_desc then '' DESC'' else '' ASC'')
          else if \<not> sort_desc then '' SORT ASC'' else []"])
    apply (rule exI [of _ "if 0 < limit \<and> 0 < offset then
            '' LIMIT '' @ decimal (unat offset) @ '','' @ decimal (unat limit)
          else if 0 < limit then '' LIMIT '' @ decimal (unat limit) else []"])
    apply (simp add: word_gt_0)
    done
  have desc: "Search_cmd ''docs'' ''hello'' 10 20 [] [] [] [] True = ''SEARCH docs hello LIMIT 20,10''"
    by code_simp
  have asc: "Search_cmd ''docs'' ''hello'' 10 20 [] [] [] [] False
       = ''SEARCH docs hello SORT ASC LIMIT 20,10''"
    by code_simp
  from general desc asc show ?thesis by blast
qed

theorem Search_cmd_policy_witness:
  "(0 :: 32 word) < 7 \<and> (0 :: 32 word) < 40
   \<and> Search_cmd ''docs'' ''hello'' 7 40 [] [] [] ''id'' False
       = ''SEARCH docs hello SORT id ASC LIMIT 40,7''
   \<and> Search_cmd ''docs'' ''hello'' 0 40 [] [] [] [] True = ''SEARCH docs hello''"
proof -
  have a: "Search_cmd ''docs'' ''hello'' 0 0 [] [] [] [] True = ''SEARCH docs hello''"
    by code_simp
  have b: "decimal 40 = ''40''" "decimal 7 = ''7''"
    by code_simp+
  show ?thesis
    using Search_cmd_policy [of "''docs''" "''hello''" 7 40 "[]" "[]" "[]" "''id''" False]
      Search_cmd_policy [of "''docs''" "''hello''" 0 40 "[]" "[]" "[]" "[]" True]
    by (auto simp: a b)
qed

section \<open>N-grams\<close>

lemma length_windows: "0 < n \<Longrightarrow> length (windows n cs) = length cs + 1 - n"
  by (induction cs) auto

text \<open>
  Claim C9. For every text and every \<open>n \<ge> 1\<close>, \<^verbatim>\<open>GenerateNgrams(t, n)\<close> returns
  \<open>max(0, codepoints(t) - n + 1)\<close> n-grams, none when the text has fewer than \<open>n\<close>
  codepoints.
\<close>

theorem GenerateNgrams_length:
  "1 \<le> n \<longrightarrow>
     int (length (GenerateNgrams u2c c2u text n)) = max 0 (int (length (u2c text)) - n + 1)
     \<and> (int (length (u2c text)) < n \<longrightarrow> GenerateNgrams u2c c2u text n = [])"
proof
  assume n: "1 \<le> n"
  then have len: "length (windows (nat n) (u2c text)) = length (u2c text) + 1 - nat n"
    by (simp add: length_windows)
  have "int (length (GenerateNgrams u2c c2u text n)) = max 0 (int (length (u2c text)) - n + 1)"
    using n len by (simp add: GenerateNgrams_def)
  moreover have "int (length (u2c text)) < n \<longrightarrow> GenerateNgrams u2c c2u text n = []"
    using n len by (auto simp: GenerateNgrams_def)
  ultimately show "int (length (GenerateNgrams u2c c2u text n))
        = max 0 (int (length (u2c text)) - n + 1)
     \<and> (int (length (u2c text)) < n \<longrightarrow> GenerateNgrams u2c c2u text n = [])" by blast
qed

theorem GenerateNgrams_length_witness:
  "(1::int) \<le> 2 \<and> length (GenerateNgrams id id ''abcd'' 2) = 3
   \<and> int (length (id ''a'')) < 2 \<and> GenerateNgrams id id ''a'' 2 = []"
  using GenerateNgrams_length [of 2 id id "''abcd''"] GenerateNgrams_length [of 2 id id "''a''"]
  by simp

section \<open>Sending a command\<close>

lemma str_find_zero: "(str_find s pat = Some 0) = (take (length pat) s = pat)"
  by (cases s) auto

lemma find_ERROR: "(str_find r ''ERROR'' = Some 0) = (take 5 r = ''ERROR'')"
  by (simp add: str_find_zero eval_nat_numeral)

lemma substr_cases:
  "substr s pos = (if length s < pos then Raise out_of_range else Return (drop pos s))"
  by (simp add: substr_def)

lemma map_raises_Inr_fun: "map_raises (\<lambda>v. Inr (f v)) x \<noteq> Return (Inl e)"
  by (cases x) auto

lemma map_raises_Inr: "map_raises Inr x \<noteq> Return (Inl e)"
  by (cases x) auto

lemma SendCommand_answering:
  "IsConnected st \<Longrightarrow> raw \<noteq> [] \<Longrightarrow>
     SendCommand (answering raw) st command = (Inr (strip_trailing raw), st)"
  by (simp add: SendCommand_def answering_def)

lemma SendCommand_Inl:
  "SendCommand tr st command = (Inl e, st') \<Longrightarrow> last_error st' = message e"
  by (auto simp: SendCommand_def Let_def split: if_splits reply.splits)

lemma SendCommand_Inr:
  "SendCommand tr st command = (Inr r, st') \<Longrightarrow> st' = st"
  by (auto simp: SendCommand_def Let_def split: if_splits reply.splits)

lemma strip_trailing_CRLF:
  "strip_trailing (r @ [CHR 0x0D, CHR 0x0A]) = strip_trailing r"
proof -
  have "strip_trailing (r @ [CHR 0x0D, CHR 0x0A])
      = strip_trailing (butlast (r @ [CHR 0x0D, CHR 0x0A]))"
    by (subst strip_trailing.simps) simp
  also have "butlast (r @ [CHR 0x0D, CHR 0x0A]) = r @ [CHR 0x0D]"
    by (simp add: butlast_append)
  also have "strip_trailing (r @ [CHR 0x0D]) = strip_trailing (butlast (r @ [CHR 0x0D]))"
    by (subst strip_trailing.simps) simp
  finally show ?thesis by simp
qed

lemma strip_trailing_done:
  "r = [] \<or> (last r \<noteq> CHR 0x0A \<and> last r \<noteq> CHR 0x0D) \<Longrightarrow> strip_trailing r = r"
  by (subst strip_trailing.simps) auto

lemma IsConnected_client: "IsConnected connected_client"
  by (simp add: IsConnected_def connected_client_def Impl_init_def)

text \<open>Each operation sends its command once and hands the response line to its parser;
  a failed send is returned as it is.\<close>

lemma Search_sent:
  "SendCommand tr st (Search_cmd table query limit offset and_terms not_terms filters sort_column sort_desc) = (Inr r, st') \<Longrightarrow>
     Search stod tr st table query limit offset and_terms not_terms filters sort_column sort_desc = (Search_response stod r, st)"
  using SendCommand_Inr [of tr st "Search_cmd table query limit offset and_terms not_terms filters sort_column sort_desc" r st']
  by (simp add: Search_def)

lemma Search_unsent:
  "SendCommand tr st (Search_cmd table query limit offset and_terms not_terms filters sort_column sort_desc) = (Inl e, st') \<Longrightarrow>
     Search stod tr st table query limit offset and_terms not_terms filters sort_column sort_desc = (Return (Inl e), st')"
  by (simp add: Search_def)

lemma Search_answering:
  "IsConnected st \<Longrightarrow> raw \<noteq> [] \<Longrightarrow>
     Search stod (answering raw) st table query limit offset and_terms not_terms filters sort_column sort_desc = (Search_response stod (strip_trailing raw), st)"
  by (simp add: Search_sent SendCommand_answering)

lemma Count_sent:
  "SendCommand tr st (Count_cmd table query and_terms not_terms filters) = (Inr r, st') \<Longrightarrow>
     Count stod tr st table query and_terms not_terms filters = (Count_response stod r, st)"
  using SendCommand_Inr [of tr st "Count_cmd table query and_terms not_terms filters" r st']
  by (simp add: Count_def)

lemma Count_unsent:
  "SendCommand tr st (Count_cmd table query and_terms not_terms filters) = (Inl e, st') \<Longrightarrow>
     Count stod tr st table query and_terms not_terms filters = (Return (Inl e), st')"
  by (simp add: Count_def)

lemma Count_answering:
  "IsConnected st \<Longrightarrow> raw \<noteq> [] \<Longrightarrow>
     Count stod (answering raw) st table query and_terms not_terms filters = (Count_response stod (strip_trailing raw), st)"
  by (simp add: Count_sent SendCommand_answering)

lemma Get_sent:
  "SendCommand tr st (''GET '' @ table @ '' '' @ pk) = (Inr r, st') \<Longrightarrow>
     Get tr st table pk = (Get_response r, st)"
  using SendCommand_Inr [of tr st "''GET '' @ table @ '' '' @ pk" r st']
  by (simp add: Get_def)

lemma Get_unsent:
  "SendCommand tr st (''GET '' @ table @ '' '' @ pk) = (Inl e, st') \<Longrightarrow>
     Get tr st table pk = (Return (Inl e), st')"
  by (simp add: Get_def)

lemma Get_answering:
  "IsConnected st \<Longrightarrow> raw \<noteq> [] \<Longrightarrow>
     Get (answering raw) st table pk = (Get_response (strip_trailing raw), st)"
  by (simp add: Get_sent SendCommand_answering)

lemma Info_sent:
  "SendCommand tr st (''INFO'') = (Inr r, st') \<Longrightarrow>
     Info tr st = (Info_response r, st)"
  using SendCommand_Inr [of tr st "''INFO''" r st']
  by (simp add: Info_def)

lemma Info_unsent:
  "SendCommand tr st (''INFO'') = (Inl e, st') \<Longrightarrow>
     Info tr st = (Return (Inl e), st')"
  by (simp add: Info_def)

lemma Info_answering:
  "IsConnected st \<Longrightarrow> raw \<noteq> [] \<Longrightarrow>
     Info (answering raw) st = (Info_response (strip_trailing raw), st)"
  by (simp add: Info_sent SendCommand_answering)

lemma GetReplicationStatus_sent:
  "SendCommand tr st (''REPLICATION STATUS'') = (Inr r, st') \<Longrightarrow>
     GetReplicationStatus tr st = (GetReplicationStatus_response r, st)"
  using SendCommand_Inr [of tr st "''REPLICATION STATUS''" r st']
  by (simp add: GetReplicationStatus_def)

lemma GetReplicationStatus_unsent:
  "SendCommand tr st (''REPLICATION STATUS'') = (Inl e, st') \<Longrightarrow>
     GetReplicationStatus tr st = (Return (Inl e), st')"
  by (simp add: GetReplicationStatus_def)

lemma GetReplicationStatus_answering:
  "IsConnected st \<Longrightarrow> raw \<noteq> [] \<Longrightarrow>
     GetReplicationStatus (answering raw) st = (GetReplicationStatus_response (strip_trailing raw), st)"
  by (simp add: GetReplicationStatus_sent SendCommand_answering)

lemma GetConfig_sent:
  "SendCommand tr st (''CONFIG'') = (Inr r, st') \<Longrightarrow>
     GetConfig tr st = (GetConfig_response r, st)"
  using SendCommand_Inr [of tr st "''CONFIG''" r st']
  by (simp add: GetConfig_def)

lemma GetConfig_unsent:
  "SendCommand tr st (''CONFIG'') = (Inl e, st') \<Longrightarrow>
     GetConfig tr st = (Return (Inl e), st')"
  by (simp add: GetConfig_def)

lemma GetConfig_answering:
  "IsConnected st \<Longrightarrow> raw \<noteq> [] \<Longrightarrow>
     GetConfig (answering raw) st = (GetConfig_response (strip_trailing raw), st)"
  by (simp add: GetConfig_sent SendCommand_answering)

lemma Save_sent:
  "SendCommand tr st (if filepath = [] then ''SAVE'' else ''SAVE '' @ filepath) = (Inr r, st') \<Longrightarrow>
     Save tr st filepath = (Save_response r, st)"
  using SendCommand_Inr [of tr st "if filepath = [] then ''SAVE'' else ''SAVE '' @ filepath" r st']
  by (simp add: Save_def)

lemma Save_unsent:
  "SendCommand tr st (if filepath = [] then ''SAVE'' else ''SAVE '' @ filepath) = (Inl e, st') \<Longrightarrow>
     Save tr st filepath = (Return (Inl e), st')"
  by (simp add: Save_def)

lemma Save_answering:
  "IsConnected st \<Longrightarrow> raw \<noteq> [] \<Longrightarrow>
     Save (answering raw) st filepath = (Save_response (strip_trailing raw), st)"
  by (simp add: Save_sent SendCommand_answering)

lemma Load_sent:
  "SendCommand tr st (''LOAD '' @ filepath) = (Inr r, st') \<Longrightarrow>
     Load tr st filepath = (Load_response r, st)"
  using SendCommand_Inr [of tr st "''LOAD '' @ filepath" r st']
  by (simp add: Load_def)

lemma Load_unsent:
  "SendCommand tr st (''LOAD '' @ filepath) = (Inl e, st') \<Longrightarrow>
     Load tr st filepath = (Return (Inl e), st')"
  by (simp add: Load_def)

lemma Load_answering:
  "IsConnected st \<Longrightarrow> raw \<noteq> [] \<Longrightarrow>
     Load (answering raw) st filepath = (Load_response (strip_trailing raw), st)"
  by (simp add: Load_sent SendCommand_answering)

lemma StopReplication_sent:
  "SendCommand tr st (''REPLICATION STOP'') = (Inr r, st') \<Longrightarrow>
     StopReplication tr st = (switch_response r, st)"
  using SendCommand_Inr [of tr st "''REPLICATION STOP''" r st']
  by (simp add: StopReplication_def)

lemma StopReplication_unsent:
  "SendCommand tr st (''REPLICATION STOP'') = (Inl e, st') \<Longrightarrow>
     StopReplication tr st = (Return (Some (message e)), st')"
  by (simp add: StopReplication_def)

lemma StopReplication_answering:
  "IsConnected st \<Longrightarrow> raw \<noteq> [] \<Longrightarrow>
     StopReplication (answering raw) st = (switch_response (strip_trailing raw), st)"
  by (simp add: StopReplication_sent SendCommand_answering)

lemma StartReplication_sent:
  "SendCommand tr st (''REPLICATION START'') = (Inr r, st') \<Longrightarrow>
     StartReplication tr st = (switch_response r, st)"
  using SendCommand_Inr [of tr st "''REPLICATION START''" r st']
  by (simp add: StartReplication_def)

lemma StartReplication_unsent:
  "SendCommand tr st (''REPLICATION START'') = (Inl e, st') \<Longrightarrow>
     StartReplication tr st = (Return (Some (message e)), st')"
  by (simp add: StartReplication_def)

lemma StartReplication_answering:
  "IsConnected st \<Longrightarrow> raw \<noteq> [] \<Longrightarrow>
     StartReplication (answering raw) st = (switch_response (strip_trailing raw), st)"
  by (simp add: StartReplication_sent SendCommand_answering)

lemma EnableDebug_sent:
  "SendCommand tr st (''DEBUG ON'') = (Inr r, st') \<Longrightarrow>
     EnableDebug tr st = (switch_response r, st)"
  using SendCommand_Inr [of tr st "''DEBUG ON''" r st']
  by (simp add: EnableDebug_def)

lemma EnableDebug_unsent:
  "SendCommand tr st (''DEBUG ON'') = (Inl e, st') \<Longrightarrow>
     EnableDebug tr st = (Return (Some (message e)), st')"
  by (simp add: EnableDebug_def)

lemma EnableDebug_answering:
  "IsConnected st \<Longrightarrow> raw \<noteq> [] \<Longrightarrow>
     EnableDebug (answering raw) st = (switch_response (strip_trailing raw), st)"
  by (simp add: EnableDebug_sent SendCommand_answering)

lemma DisableDebug_sent:
  "SendCommand tr st (''DEBUG OFF'') = (Inr r, st') \<Longrightarrow>
     DisableDebug tr st = (switch_response r, st)"
  using SendCommand_Inr [of tr st "''DEBUG OFF''" r st']
  by (simp add: DisableDebug_def)

lemma DisableDebug_unsent:
  "SendCommand tr st (''DEBUG OFF'') = (Inl e, st') \<Longrightarrow>
     DisableDebug tr st = (Return (Some (message e)), st')"
  by (simp add: DisableDebug_def)

lemma DisableDebug_answering:
  "IsConnected st \<Longrightarrow> raw \<noteq> [] \<Longrightarrow>
     DisableDebug (answering raw) st = (switch_response (strip_trailing raw), st)"
  by (simp add: DisableDebug_sent SendCommand_answering)

section \<open>The ERROR branch\<close>

lemma Search_response_ERROR:
  "take 5 r = ''ERROR'' \<Longrightarrow> Search_response stod r = map_raises (\<lambda>m. Inl (Error m)) (substr r 6)"
  by (simp add: Search_response_def find_ERROR kErrorPrefixLen_def)

lemma Search_response_other:
  "take 5 r \<noteq> ''ERROR'' \<Longrightarrow> Search_response stod r = Return (Inl (Error m)) \<Longrightarrow>
     m = ''Unexpected response format''"
  by (auto simp: Search_response_def find_ERROR Let_def map_raises_Inr_fun map_raises_Inr
      split: if_splits prod.splits)

lemma Count_response_ERROR:
  "take 5 r = ''ERROR'' \<Longrightarrow> Count_response stod r = map_raises (\<lambda>m. Inl (Error m)) (substr r 6)"
  by (simp add: Count_response_def find_ERROR kErrorPrefixLen_def)

lemma Count_response_other:
  "take 5 r \<noteq> ''ERROR'' \<Longrightarrow> Count_response stod r = Return (Inl (Error m)) \<Longrightarrow>
     m = ''Unexpected response format''"
  by (auto simp: Count_response_def find_ERROR Let_def map_raises_Inr_fun map_raises_Inr
      split: if_splits prod.splits)

lemma Get_response_ERROR:
  "take 5 r = ''ERROR'' \<Longrightarrow> Get_response r = map_raises (\<lambda>m. Inl (Error m)) (substr r 6)"
  by (simp add: Get_response_def find_ERROR kErrorPrefixLen_def)

lemma Get_response_other:
  "take 5 r \<noteq> ''ERROR'' \<Longrightarrow> Get_response r = Return (Inl (Error m)) \<Longrightarrow>
     m = ''Unexpected response format''"
  by (auto simp: Get_response_def find_ERROR Let_def map_raises_Inr_fun map_raises_Inr
      split: if_splits prod.splits)

lemma Info_response_ERROR:
  "take 5 r = ''ERROR'' \<Longrightarrow> Info_response r = map_raises (\<lambda>m. Inl (Error m)) (substr r 6)"
  by (simp add: Info_response_def find_ERROR kErrorPrefixLen_def)

lemma Info_response_other:
  "take 5 r \<noteq> ''ERROR'' \<Longrightarrow> Info_response r = Return (Inl (Error m)) \<Longrightarrow>
     m = ''Unexpected response format''"
  by (auto simp: Info_response_def find_ERROR Let_def map_raises_Inr_fun map_raises_Inr
      split: if_splits prod.splits)

lemma GetReplicationStatus_response_ERROR:
  "take 5 r = ''ERROR'' \<Longrightarrow> GetReplicationStatus_response r = map_raises (\<lambda>m. Inl (Error m)) (substr r 6)"
  by (simp add: GetReplicationStatus_response_def find_ERROR kErrorPrefixLen_def)

lemma GetReplicationStatus_response_other:
  "take 5 r \<noteq> ''ERROR'' \<Longrightarrow> GetReplicationStatus_response r = Return (Inl (Error m)) \<Longrightarrow>
     m = ''Unexpected response format''"
  by (auto simp: GetReplicationStatus_response_def find_ERROR Let_def map_raises_Inr_fun map_raises_Inr
      split: if_splits prod.splits)

lemma GetConfig_response_ERROR:
  "take 5 r = ''ERROR'' \<Longrightarrow> GetConfig_response r = map_raises Inr (substr r 6)"
  by (simp add: GetConfig_response_def find_ERROR kErrorPrefixLen_def)

lemma GetConfig_response_other:
  "take 5 r \<noteq> ''ERROR'' \<Longrightarrow> GetConfig_response r = Return (Inr r)"
  by (simp add: GetConfig_response_def find_ERROR)

lemma Save_response_ERROR:
  "take 5 r = ''ERROR'' \<Longrightarrow> Save_response r = map_raises Inr (substr r 6)"
  by (simp add: Save_response_def find_ERROR kErrorPrefixLen_def)

lemma Save_response_other:
  "take 5 r \<noteq> ''ERROR'' \<Longrightarrow> Save_response r = Return (Inl (Error m)) \<Longrightarrow>
     m = ''Unexpected response format''"
  by (auto simp: Save_response_def find_ERROR Let_def map_raises_Inr_fun map_raises_Inr
      split: if_splits prod.splits)

lemma Load_response_ERROR:
  "take 5 r = ''ERROR'' \<Longrightarrow> Load_response r = map_raises Inr (substr r 6)"
  by (simp add: Load_response_def find_ERROR kErrorPrefixLen_def)

lemma Load_response_other:
  "take 5 r \<noteq> ''ERROR'' \<Longrightarrow> Load_response r = Return (Inl (Error m)) \<Longrightarrow>
     m = ''Unexpected response format''"
  by (auto simp: Load_response_def find_ERROR Let_def map_raises_Inr_fun map_raises_Inr
      split: if_splits prod.splits)

lemma switch_response_ERROR:
  "take 5 r = ''ERROR'' \<Longrightarrow> switch_response r = map_raises Some (substr r 6)"
  by (simp add: switch_response_def find_ERROR kErrorPrefixLen_def)

lemma switch_response_other:
  "take 5 r \<noteq> ''ERROR'' \<Longrightarrow> switch_response r = Return None"
  by (simp add: switch_response_def find_ERROR)

text \<open>
  Claim C10, as amended. Every operation takes its \<^verbatim>\<open>ERROR\<close> branch exactly when the first
  five characters of the response are \<^verbatim>\<open>ERROR\<close>; no space need follow. The text it then
  reports is the response without its first six characters, whatever the sixth is: an
  \<^verbatim>\<open>Error\<close> for Search, Count, Get, Info and GetReplicationStatus, the returned message
  for the four switches, the text carried by the result for GetConfig, Save and Load. So
  \<^verbatim>\<open>ERRORS detected\<close> gives the message \<^verbatim>\<open> detected\<close> (with its leading space), and
  for the response \<^verbatim>\<open>ERROR\<close>, the only one shorter than six characters, the removal is
  out of range: \<^verbatim>\<open>std::out_of_range\<close> leaves the operation. A response that
  does not start with \<^verbatim>\<open>ERROR\<close> is never reported as a server error: the
  switches succeed, GetConfig returns the response, and the only \<^verbatim>\<open>Error\<close> the other
  operations can return is "Unexpected response format".
\<close>

theorem ERROR_branch:
  assumes "IsConnected st" and "raw \<noteq> []" and "r = strip_trailing raw"
  shows
  "(take 5 r = ''ERROR'' \<and> 6 \<le> length r \<longrightarrow>
      fst (Search stod (answering raw) st table query limit offset and_terms not_terms filters sort_column sort_desc) = Return (Inl (Error (drop 6 r)))
      \<and> fst (Count stod (answering raw) st table query and_terms not_terms filters) = Return (Inl (Error (drop 6 r)))
      \<and> fst (Get (answering raw) st table pk) = Return (Inl (Error (drop 6 r)))
      \<and> fst (Info (answering raw) st) = Return (Inl (Error (drop 6 r)))
      \<and> fst (GetReplicationStatus (answering raw) st) = Return (Inl (Error (drop 6 r)))
      \<and> map_raises variant_text (fst (GetConfig (answering raw) st)) = Return (drop 6 r)
      \<and> map_raises variant_text (fst (Save (answering raw) st filepath)) = Return (drop 6 r)
      \<and> map_raises variant_text (fst (Load (answering raw) st filepath)) = Return (drop 6 r)
      \<and> fst (StopReplication (answering raw) st) = Return (Some (drop 6 r))
      \<and> fst (StartReplication (answering raw) st) = Return (Some (drop 6 r))
      \<and> fst (EnableDebug (answering raw) st) = Return (Some (drop 6 r))
      \<and> fst (DisableDebug (answering raw) st) = Return (Some (drop 6 r)))
   \<and> (r = ''ERROR'' \<longrightarrow>
      fst (Search stod (answering raw) st table query limit offset and_terms not_terms filters sort_column sort_desc) = Raise out_of_range
      \<and> fst (Count stod (answering raw) st table query and_terms not_terms filters) = Raise out_of_range
      \<and> fst (Get (answering raw) st table pk) = Raise out_of_range
      \<and> fst (Info (answering raw) st) = Raise out_of_range
      \<and> fst (GetReplicationStatus (answering raw) st) = Raise out_of_range
      \<and> fst (GetConfig (answering raw) st) = Raise out_of_range
      \<and> fst (Save (answering raw) st filepath) = Raise out_of_range
      \<and> fst (Load (answering raw) st filepath) = Raise out_of_range
      \<and> fst (StopReplication (answering raw) st) = Raise out_of_range
      \<and> fst (StartReplication (answering raw) st) = Raise out_of_range
      \<and> fst (EnableDebug (answering raw) st) = Raise out_of_range
      \<and> fst (DisableDebug (answering raw) st) = Raise out_of_range)
   \<and> (take 5 r \<noteq> ''ERROR'' \<longrightarrow>
      (\<forall>m. fst (Search stod (answering raw) st table query limit offset and_terms not_terms filters sort_column sort_desc) = Return (Inl (Error m)) \<longrightarrow> m = ''Unexpected response format'')
      \<and> (\<forall>m. fst (Count stod (answering raw) st table query and_terms not_terms filters) = Return (Inl (Error m)) \<longrightarrow> m = ''Unexpected response format'')
      \<and> (\<forall>m. fst (Get (answering raw) st table pk) = Return (Inl (Error m)) \<longrightarrow> m = ''Unexpected response format'')
      \<and> (\<forall>m. fst (Info (answering raw) st) = Return (Inl (Error m)) \<longrightarrow> m = ''Unexpected response format'')
      \<and> (\<forall>m. fst (GetReplicationStatus (answering raw) st) = Return (Inl (Error m)) \<longrightarrow> m = ''Unexpected response format'')
      \<and> fst (GetConfig (answering raw) st) = Return (Inr r)
      \<and> (\<forall>m. fst (Save (answering raw) st filepath) = Return (Inl (Error m)) \<longrightarrow> m = ''Unexpected response format'')
      \<and> (\<forall>m. fst (Load (answering raw) st filepath) = Return (Inl (Error m)) \<longrightarrow> m = ''Unexpected response format'')
      \<and> fst (StopReplication (answering raw) st) = Return None
      \<and> fst (StartReplication (answering raw) st) = Return None
      \<and> fst (EnableDebug (answering raw) st) = Return None
      \<and> fst (DisableDebug (answering raw) st) = Return None)"
proof -
  have len: "take 5 r = ''ERROR'' \<Longrightarrow> 6 \<le> length r \<Longrightarrow> substr r 6 = Return (drop 6 r)"
    by (simp add: substr_cases)
  have short: "r = ''ERROR'' \<Longrightarrow> take 5 r = ''ERROR'' \<and> substr r 6 = Raise out_of_range"
    by (simp add: substr_cases)
  have taken: "take 5 r = ''ERROR'' \<and> 6 \<le> length r \<longrightarrow>
      fst (Search stod (answering raw) st table query limit offset and_terms not_terms filters sort_column sort_desc) = Return (Inl (Error (drop 6 r)))
      \<and> fst (Count stod (answering raw) st table query and_terms not_terms filters) = Return (Inl (Error (drop 6 r)))
      \<and> fst (Get (answering raw) st table pk) = Return (Inl (Error (drop 6 r)))
      \<and> fst (Info (answering raw) st) = Return (Inl (Error (drop 6 r)))
      \<and> fst (GetReplicationStatus (answering raw) st) = Return (Inl (Error (drop 6 r)))
      \<and> map_raises variant_text (fst (GetConfig (answering raw) st)) = Return (drop 6 r)
      \<and> map_raises variant_text (fst (Save (answering raw) st filepath)) = Return (drop 6 r)
      \<and> map_raises variant_text (fst (Load (answering raw) st filepath)) = Return (drop 6 r)
      \<and> fst (StopReplication (answering raw) st) = Return (Some (drop 6 r))
      \<and> fst (StartReplication (answering raw) st) = Return (Some (drop 6 r))
      \<and> fst (EnableDebug (answering raw) st) = Return (Some (drop 6 r))
      \<and> fst (DisableDebug (answering raw) st) = Return (Some (drop 6 r))"
    using assms len
    by (simp add: Search_answering Count_answering Get_answering Info_answering GetReplicationStatus_answering GetConfig_answering Save_answering Load_answering StopReplication_answering StartReplication_answering EnableDebug_answering DisableDebug_answering
        Search_response_ERROR Count_response_ERROR Get_response_ERROR Info_response_ERROR
        GetReplicationStatus_response_ERROR GetConfig_response_ERROR Save_response_ERROR
        Load_response_ERROR switch_response_ERROR raises.map_comp comp_def variant_text_def)
  have thrown: "r = ''ERROR'' \<longrightarrow>
      fst (Search stod (answering raw) st table query limit offset and_terms not_terms filters sort_column sort_desc) = Raise out_of_range
      \<and> fst (Count stod (answering raw) st table query and_terms not_terms filters) = Raise out_of_range
      \<and> fst (Get (answering raw) st table pk) = Raise out_of_range
      \<and> fst (Info (answering raw) st) = Raise out_of_range
      \<and> fst (GetReplicationStatus (answering raw) st) = Raise out_of_range
      \<and> fst (GetConfig (answering raw) st) = Raise out_of_range
      \<and> fst (Save (answering raw) st filepath) = Raise out_of_range
      \<and> fst (Load (answering raw) st filepath) = Raise out_of_range
      \<and> fst (StopReplication (answering raw) st) = Raise out_of_range
      \<and> fst (StartReplication (answering raw) st) = Raise out_of_range
      \<and> fst (EnableDebug (answering raw) st) = Raise out_of_range
      \<and> fst (DisableDebug (answering raw) st) = Raise out_of_range"
    using assms short
    by (simp add: Search_answering Count_answering Get_answering Info_answering GetReplicationStatus_answering GetConfig_answering Save_answering Load_answering StopReplication_answering StartReplication_answering EnableDebug_answering DisableDebug_answering
        Search_response_ERROR Count_response_ERROR Get_response_ERROR Info_response_ERROR
        GetReplicationStatus_response_ERROR GetConfig_response_ERROR Save_response_ERROR
        Load_response_ERROR switch_response_ERROR)
  have other: "take 5 r \<noteq> ''ERROR'' \<longrightarrow>
      (\<forall>m. fst (Search stod (answering raw) st table query limit offset and_terms not_terms filters sort_column sort_desc) = Return (Inl (Error m)) \<longrightarrow> m = ''Unexpected response format'')
      \<and> (\<forall>m. fst (Count stod (answering raw) st table query and_terms not_terms filters) = Return (Inl (Error m)) \<longrightarrow> m = ''Unexpected response format'')
      \<and> (\<forall>m. fst (Get (answering raw) st table pk) = Return (Inl (Error m)) \<longrightarrow> m = ''Unexpected response format'')
      \<and> (\<forall>m. fst (Info (answering raw) st) = Return (Inl (Error m)) \<longrightarrow> m = ''Unexpected response format'')
      \<and> (\<forall>m. fst (GetReplicationStatus (answering raw) st) = Return (Inl (Error m)) \<longrightarrow> m = ''Unexpected response format'')
      \<and> fst (GetConfig (answering raw) st) = Return (Inr r)
      \<and> (\<forall>m. fst (Save (answering raw) st filepath) = Return (Inl (Error m)) \<longrightarrow> m = ''Unexpected response format'')
      \<and> (\<forall>m. fst (Load (answering raw) st filepath) = Return (Inl (Error m)) \<longrightarrow> m = ''Unexpected response format'')
      \<and> fst (StopReplication (answering raw) st) = Return None
      \<and> fst (StartReplication (answering raw) st) = Return None
      \<and> fst (EnableDebug (answering raw) st) = Return None
      \<and> fst (DisableDebug (answering raw) st) = Return None"
    using assms
    by (auto simp: Search_answering Count_answering Get_answering Info_answering GetReplicationStatus_answering GetConfig_answering Save_answering Load_answering StopReplication_answering StartReplication_answering EnableDebug_answering DisableDebug_answering
        GetConfig_response_other switch_response_other
        dest: Search_response_other Count_response_other Get_response_other Info_response_other
        GetReplicationStatus_response_other Save_response_other Load_response_other)
  from taken thrown other show ?thesis by blast
qed

theorem ERROR_branch_witness:
  "IsConnected connected_client
   \<and> fst (Get (answering (''ERRORS detected'' @ [CHR 0x0D, CHR 0x0A])) connected_client ''docs'' ''1'')
       = Return (Inl (Error '' detected''))
   \<and> fst (StopReplication (answering ''ERROR'') connected_client) = Raise out_of_range
   \<and> fst (EnableDebug (answering ''OK DEBUG ON'') connected_client) = Return None"
proof -
  have a: "''ERRORS detected'' = strip_trailing (''ERRORS detected'' @ [CHR 0x0D, CHR 0x0A])"
    by (simp add: strip_trailing.simps)
  have b: "''ERROR'' = strip_trailing ''ERROR''"
    by (simp add: strip_trailing.simps)
  have c: "''OK DEBUG ON'' = strip_trailing ''OK DEBUG ON''"
    by (simp add: strip_trailing.simps)
  note at = ERROR_branch [where st = connected_client and stod = Return and table = "''docs''"
      and pk = "''1''" and query = "[]" and limit = 0 and offset = 0 and and_terms = "[]"
      and not_terms = "[]" and filters = "[]" and sort_column = "[]" and sort_desc = True
      and filepath = "[]", OF IsConnected_client]
  show ?thesis
    using at [OF _ a] at [OF _ b] at [OF _ c] IsConnected_client
    by simp
qed

text \<open>The claim as it was stated gives \<^verbatim>\<open>S detected\<close> as the message for the response
  \<^verbatim>\<open>ERRORS detected\<close>; six characters are removed, not five.\<close>

theorem ERROR_branch_counterexample:
  "fst (Get (answering (''ERRORS detected'' @ [CHR 0x0D, CHR 0x0A])) connected_client ''docs'' ''1'')
     \<noteq> Return (Inl (Error ''S detected''))"
proof -
  have "strip_trailing (''ERRORS detected'' @ [CHR 0x0D, CHR 0x0A]) = ''ERRORS detected''"
    by (simp add: strip_trailing.simps)
  then show ?thesis
    by (simp add: Get_answering IsConnected_client Get_response_ERROR substr_cases)
qed

section \<open>Server errors as results\<close>

lemma strip_no_such_table:
  "strip_trailing (''ERROR no such table'' @ [CHR 0x0D, CHR 0x0A]) = ''ERROR no such table''"
  by (simp add: strip_trailing.simps)

text \<open>
  Claim C1. For every operation the response \<^verbatim>\<open>ERROR no such table\<close> should come back as
  a server error with the message \<^verbatim>\<open>no such table\<close>. Get (like Search, Count, Info and
  GetReplicationStatus) returns that \<^verbatim>\<open>Error\<close>; GetConfig, Save and Load return the
  message in the \<^verbatim>\<open>std::string\<close> alternative of their variant, the one that holds the
  configuration text or the saved path on success.
\<close>

theorem GetConfig_Save_Load_ERROR_as_value:
  "fst (GetConfig (answering (''ERROR no such table'' @ [CHR 0x0D, CHR 0x0A])) connected_client)
     = Return (Inr ''no such table'')
   \<and> fst (Save (answering (''ERROR no such table'' @ [CHR 0x0D, CHR 0x0A])) connected_client
            ''/var/dump'')
     = Return (Inr ''no such table'')
   \<and> fst (Load (answering (''ERROR no such table'' @ [CHR 0x0D, CHR 0x0A])) connected_client
            ''/var/dump'')
     = Return (Inr ''no such table'')
   \<and> fst (Get (answering (''ERROR no such table'' @ [CHR 0x0D, CHR 0x0A])) connected_client
            ''docs'' ''1'')
     = Return (Inl (Error ''no such table''))"
  using strip_no_such_table
  by (simp add: GetConfig_answering Save_answering Load_answering Get_answering
      IsConnected_client GetConfig_response_ERROR Save_response_ERROR
      Load_response_ERROR Get_response_ERROR substr_cases)

section \<open>Numbers in responses\<close>

lemma Search_response_no_number:
  "Search_response stod ''OK RESULTS abc a1 a2''
     = Return (Inr \<lparr>total_count = 0, results = [], debug = None\<rparr>)"
  by (simp add: Search_response_def istringstream_def extract_string_def extract_uint64_def
      read_tokens_def isspace_def nonspace_def scan_number_def isdigit_def)

lemma Count_response_no_number:
  "Count_response stod ''OK COUNT abc''
     = Return (Inr \<lparr>count = 0, count_debug = None\<rparr>)"
  by (simp add: Count_response_def istringstream_def extract_string_def extract_uint64_def
      read_tokens_def isspace_def nonspace_def scan_number_def isdigit_def)

lemma Count_response_bad_terms:
  "Count_response stod ''OK COUNT 12 DEBUG terms=x'' = Raise invalid_argument"
  by (simp add: Count_response_def istringstream_def extract_string_def extract_uint64_def
      read_tokens_def isspace_def nonspace_def scan_number_def isdigit_def digits_value_def
      words.simps ParseDebugInfo_def debug_token_def stoul_def stoull_def)

text \<open>
  Claim C2. A count token that is not a number should make Search and Count fail. The
  stream extraction \<^verbatim>\<open>iss >> total_count\<close> sets the fail bit, which nobody tests:
  \<^verbatim>\<open>OK RESULTS abc a1 a2\<close> is a successful search with total count 0 and no results, and
  \<^verbatim>\<open>OK COUNT abc\<close> a successful count of 0. A non-numeric value in the \<^verbatim>\<open>DEBUG\<close>
  block does propagate: \<^verbatim>\<open>std::stoul\<close> throws \<^verbatim>\<open>std::invalid_argument\<close>.
\<close>

theorem count_token_defaults_to_zero:
  "fst (Search stod (answering (''OK RESULTS abc a1 a2'' @ [CHR 0x0D, CHR 0x0A])) connected_client
          ''docs'' ''hello'' 10 0 [] [] [] [] True)
     = Return (Inr \<lparr>total_count = 0, results = [], debug = None\<rparr>)
   \<and> fst (Count stod (answering (''OK COUNT abc'' @ [CHR 0x0D, CHR 0x0A])) connected_client
            ''docs'' ''hello'' [] [] [])
     = Return (Inr \<lparr>count = 0, count_debug = None\<rparr>)
   \<and> fst (Count stod (answering (''OK COUNT 12 DEBUG terms=x'' @ [CHR 0x0D, CHR 0x0A]))
            connected_client ''docs'' ''hello'' [] [] [])
     = Raise invalid_argument"
proof -
  have "strip_trailing (''OK RESULTS abc a1 a2'' @ [CHR 0x0D, CHR 0x0A]) = ''OK RESULTS abc a1 a2''"
       "strip_trailing (''OK COUNT abc'' @ [CHR 0x0D, CHR 0x0A]) = ''OK COUNT abc''"
       "strip_trailing (''OK COUNT 12 DEBUG terms=x'' @ [CHR 0x0D, CHR 0x0A])
          = ''OK COUNT 12 DEBUG terms=x''"
    by (simp_all add: strip_trailing.simps)
  then show ?thesis
    using Search_response_no_number [of stod] Count_response_no_number [of stod]
      Count_response_bad_terms [of stod]
    by (simp add: Search_answering Count_answering IsConnected_client)
qed

section \<open>Connecting twice\<close>

text \<open>
  Claim C6, as amended. \<^verbatim>\<open>Connect()\<close> on a client whose connection is open, in
  particular a second \<^verbatim>\<open>Connect()\<close> after a successful one, fails with the message
  \<^verbatim>\<open>Already connected\<close> (capital A) and leaves the client as it was: the socket is
  unchanged and \<^verbatim>\<open>IsConnected()\<close> is still true.
\<close>

theorem Connect_twice:
  "(IsConnected st \<longrightarrow>
      Connect sys st = (Some ''Already connected'', st)
      \<and> sock (snd (Connect sys st)) = sock st \<and> IsConnected (snd (Connect sys st)))
   \<and> (Connect sys st = (None, st1) \<longrightarrow>
      IsConnected st1 \<and> Connect sys' st1 = (Some ''Already connected'', st1))"
proof -
  have again: "IsConnected s \<Longrightarrow> Connect y s = (Some ''Already connected'', s)" for s y
    by (simp add: Connect_def IsConnected_def)
  have first: "Connect sys st = (None, st1) \<Longrightarrow> IsConnected st1"
    by (auto simp: Connect_def IsConnected_def Let_def split: if_splits)
  from again [of st sys] again [of st1 sys'] first show ?thesis by auto
qed

theorem Connect_twice_witness:
  "IsConnected connected_client
   \<and> Connect \<lparr>socket_ret = 4, inet_pton_ret = 1, connect_ret = 0, strerror_errno = []\<rparr> connected_client = (Some ''Already connected'', connected_client)
   \<and> Connect \<lparr>socket_ret = 4, inet_pton_ret = 1, connect_ret = 0, strerror_errno = []\<rparr> (Impl_init (config connected_client))
       = (None, (Impl_init (config connected_client))\<lparr>sock := 4\<rparr>)
   \<and> Connect \<lparr>socket_ret = 4, inet_pton_ret = 1, connect_ret = 0, strerror_errno = []\<rparr> ((Impl_init (config connected_client))\<lparr>sock := 4\<rparr>)
       = (Some ''Already connected'', (Impl_init (config connected_client))\<lparr>sock := 4\<rparr>)"
proof -
  have first: "Connect \<lparr>socket_ret = 4, inet_pton_ret = 1, connect_ret = 0, strerror_errno = []\<rparr> (Impl_init (config connected_client))
       = (None, (Impl_init (config connected_client))\<lparr>sock := 4\<rparr>)"
    by (simp add: Connect_def Impl_init_def)
  show ?thesis
    using Connect_twice [of connected_client "\<lparr>socket_ret = 4, inet_pton_ret = 1, connect_ret = 0, strerror_errno = []\<rparr>" connected_client "\<lparr>socket_ret = 4, inet_pton_ret = 1, connect_ret = 0, strerror_errno = []\<rparr>"]
      Connect_twice [of "Impl_init (config connected_client)" "\<lparr>socket_ret = 4, inet_pton_ret = 1, connect_ret = 0, strerror_errno = []\<rparr>"
        "(Impl_init (config connected_client))\<lparr>sock := 4\<rparr>" "\<lparr>socket_ret = 4, inet_pton_ret = 1, connect_ret = 0, strerror_errno = []\<rparr>"]
      first IsConnected_client
    by simp
qed

text \<open>The claim as it was stated gives the message as \<^verbatim>\<open>already connected\<close>.\<close>

theorem Connect_twice_counterexample:
  "fst (Connect \<lparr>socket_ret = 4, inet_pton_ret = 1, connect_ret = 0, strerror_errno = []\<rparr> connected_client) \<noteq> Some ''already connected''"
  using IsConnected_client by (simp add: Connect_def IsConnected_def)

section \<open>Saved and loaded paths\<close>

lemma Save_response_path:
  "Save_response (''OK SAVED '' @ path) = Return (Inr path)"
  by (simp add: Save_response_def str_find_zero substr_cases kSavedPrefixLen_def)

lemma Load_response_path:
  "Load_response (''OK LOADED '' @ path) = Return (Inr path)"
  by (simp add: Load_response_def str_find_zero substr_cases kLoadedPrefixLen_def)

text \<open>
  Claim C8. When the response begins with \<^verbatim>\<open>OK SAVED \<close>, Save returns what follows these
  9 characters, unchanged; when it begins with \<^verbatim>\<open>OK LOADED \<close>, Load returns what follows
  these 10 characters, unchanged.
\<close>

theorem Save_Load_path:
  "(SendCommand tr st (if filepath = [] then ''SAVE'' else ''SAVE '' @ filepath) = (Inr r, st')
      \<and> take 9 r = ''OK SAVED '' \<longrightarrow>
      Save tr st filepath = (Return (Inr (drop 9 r)), st) \<and> ''OK SAVED '' @ drop 9 r = r)
   \<and> (SendCommand tr st (''LOAD '' @ filepath) = (Inr r, st')
      \<and> take 10 r = ''OK LOADED '' \<longrightarrow>
      Load tr st filepath = (Return (Inr (drop 10 r)), st) \<and> ''OK LOADED '' @ drop 10 r = r)"
proof -
  have saved: "''OK SAVED '' @ drop 9 r = r" if "take 9 r = ''OK SAVED ''"
    using append_take_drop_id [of 9 r] that by simp
  have loaded: "''OK LOADED '' @ drop 10 r = r" if "take 10 r = ''OK LOADED ''"
    using append_take_drop_id [of 10 r] that by simp
  have "Save_response r = Return (Inr (drop 9 r))" if "take 9 r = ''OK SAVED ''"
    using Save_response_path [of "drop 9 r"] saved [OF that] by simp
  moreover have "Load_response r = Return (Inr (drop 10 r))" if "take 10 r = ''OK LOADED ''"
    using Load_response_path [of "drop 10 r"] loaded [OF that] by simp
  ultimately show ?thesis
    using saved loaded by (auto simp: Save_sent Load_sent)
qed

theorem Save_Load_path_witness:
  "SendCommand (answering (''OK SAVED /var/dump 1.bin'' @ [CHR 0x0D, CHR 0x0A])) connected_client
       ''SAVE'' = (Inr ''OK SAVED /var/dump 1.bin'', connected_client)
   \<and> Save (answering (''OK SAVED /var/dump 1.bin'' @ [CHR 0x0D, CHR 0x0A])) connected_client []
       = (Return (Inr ''/var/dump 1.bin''), connected_client)
   \<and> SendCommand (answering (''OK LOADED /var/dump 1.bin'' @ [CHR 0x0D, CHR 0x0A])) connected_client
       ''LOAD /var/dump 1.bin'' = (Inr ''OK LOADED /var/dump 1.bin'', connected_client)
   \<and> Load (answering (''OK LOADED /var/dump 1.bin'' @ [CHR 0x0D, CHR 0x0A])) connected_client
       ''/var/dump 1.bin'' = (Return (Inr ''/var/dump 1.bin''), connected_client)"
proof -
  have s: "SendCommand (answering (''OK SAVED /var/dump 1.bin'' @ [CHR 0x0D, CHR 0x0A]))
       connected_client ''SAVE'' = (Inr ''OK SAVED /var/dump 1.bin'', connected_client)"
    by (simp add: SendCommand_answering IsConnected_client strip_trailing.simps)
  have l: "SendCommand (answering (''OK LOADED /var/dump 1.bin'' @ [CHR 0x0D, CHR 0x0A]))
       connected_client ''LOAD /var/dump 1.bin'' = (Inr ''OK LOADED /var/dump 1.bin'', connected_client)"
    by (simp add: SendCommand_answering IsConnected_client strip_trailing.simps)
  show ?thesis
    using s l
      Save_Load_path [of "answering (''OK SAVED /var/dump 1.bin'' @ [CHR 0x0D, CHR 0x0A])"
        connected_client "[]" "''OK SAVED /var/dump 1.bin''" connected_client]
      Save_Load_path [of "answering (''OK LOADED /var/dump 1.bin'' @ [CHR 0x0D, CHR 0x0A])"
        connected_client "''/var/dump 1.bin''" "''OK LOADED /var/dump 1.bin''" connected_client]
    by simp
qed

section \<open>The last-error slot\<close>

lemma Connect_failure_slot:
  "sock st < 0 \<Longrightarrow> Connect sys st = (Some m, st') \<Longrightarrow> GetLastError st' = m"
  by (auto simp: Connect_def Let_def GetLastError_def split: if_splits)

text \<open>
  Claim C7, as amended. The last-error slot is written by the transport layer only. When
  \<^verbatim>\<open>SendCommand\<close> returns an error (not connected, send or receive failure, connection
  closed), \<^verbatim>\<open>GetLastError()\<close> is the message of that error; so it is after a
  \<^verbatim>\<open>Connect()\<close> that fails once it has tried to open a socket. A facade operation whose
  send fails returns that error, with the slot equal to its message. When the command was
  sent and answered, the operation leaves the slot as it was, whatever it returns: a
  server \<^verbatim>\<open>ERROR\<close> line or an unexpected response is returned without being stored.
\<close>

theorem last_error_slot:
  "(SendCommand tr st command = (Inl e, st') \<longrightarrow> GetLastError st' = message e)
   \<and> (sock st < 0 \<and> Connect sys st = (Some m, st') \<longrightarrow> GetLastError st' = m)
   \<and> (SendCommand tr st (Search_cmd table query limit offset and_terms not_terms filters sort_column sort_desc) = (Inl e, st') \<longrightarrow>
        Search stod tr st table query limit offset and_terms not_terms filters sort_column sort_desc = (Return (Inl e), st')
        \<and> GetLastError st' = message e)
   \<and> (SendCommand tr st (Search_cmd table query limit offset and_terms not_terms filters sort_column sort_desc) = (Inr r, st') \<longrightarrow>
        GetLastError (snd (Search stod tr st table query limit offset and_terms not_terms filters sort_column sort_desc)) = GetLastError st)
   \<and> (SendCommand tr st (Count_cmd table query and_terms not_terms filters) = (Inl e, st') \<longrightarrow>
        Count stod tr st table query and_terms not_terms filters = (Return (Inl e), st')
        \<and> GetLastError st' = message e)
   \<and> (SendCommand tr st (Count_cmd table query and_terms not_terms filters) = (Inr r, st') \<longrightarrow>
        GetLastError (snd (Count stod tr st table query and_terms not_terms filters)) = GetLastError st)
   \<and> (SendCommand tr st (''GET '' @ table @ '' '' @ pk) = (Inl e, st') \<longrightarrow>
        Get tr st table pk = (Return (Inl e), st')
        \<and> GetLastError st' = message e)
   \<and> (SendCommand tr st (''GET '' @ table @ '' '' @ pk) = (Inr r, st') \<longrightarrow>
        GetLastError (snd (Get tr st table pk)) = GetLastError st)
   \<and> (SendCommand tr st (''INFO'') = (Inl e, st') \<longrightarrow>
        Info tr st = (Return (Inl e), st')
        \<and> GetLastError st' = message e)
   \<and> (SendCommand tr st (''INFO'') = (Inr r, st') \<longrightarrow>
        GetLastError (snd (Info tr st)) = GetLastError st)
   \<and> (SendCommand tr st (''REPLICATION STATUS'') = (Inl e, st') \<longrightarrow>
        GetReplicationStatus tr st = (Return (Inl e), st')
        \<and> GetLastError st' = message e)
   \<and> (SendCommand tr st (''REPLICATION STATUS'') = (Inr r, st') \<longrightarrow>
        GetLastError (snd (GetReplicationStatus tr st)) = GetLastError st)
   \<and> (SendCommand tr st (''CONFIG'') = (Inl e, st') \<longrightarrow>
        GetConfig tr st = (Return (Inl e), st')
        \<and> GetLastError st' = message e)
   \<and> (SendCommand tr st (''CONFIG'') = (Inr r, st') \<longrightarrow>
        GetLastError (snd (GetConfig tr st)) = GetLastError st)
   \<and> (SendCommand tr st (if filepath = [] then ''SAVE'' else ''SAVE '' @ filepath) = (Inl e, st') \<longrightarrow>
        Save tr st filepath = (Return (Inl e), st')
        \<and> GetLastError st' = message e)
   \<and> (SendCommand tr st (if filepath = [] then ''SAVE'' else ''SAVE '' @ filepath) = (Inr r, st') \<longrightarrow>
        GetLastError (snd (Save tr st filepath)) = GetLastError st)
   \<and> (SendCommand tr st (''LOAD '' @ filepath) = (Inl e, st') \<longrightarrow>
        Load tr st filepath = (Return (Inl e), st')
        \<and> GetLastError st' = message e)
   \<and> (SendCommand tr st (''LOAD '' @ filepath) = (Inr r, st') \<longrightarrow>
        GetLastError (snd (Load tr st filepath)) = GetLastError st)
   \<and> (SendCommand tr st (''REPLICATION STOP'') = (Inl e, st') \<longrightarrow>
        StopReplication tr st = (Return (Some (message e)), st')
        \<and> GetLastError st' = message e)
   \<and> (SendCommand tr st (''REPLICATION STOP'') = (Inr r, st') \<longrightarrow>
        GetLastError (snd (StopReplication tr st)) = GetLastError st)
   \<and> (SendCommand tr st (''REPLICATION START'') = (Inl e, st') \<longrightarrow>
        StartReplication tr st = (Return (Some (message e)), st')
        \<and> GetLastError st' = message e)
   \<and> (SendCommand tr st (''REPLICATION START'') = (Inr r, st') \<longrightarrow>
        GetLastError (snd (StartReplication tr st)) = GetLastError st)
   \<and> (SendCommand tr st (''DEBUG ON'') = (Inl e, st') \<longrightarrow>
        EnableDebug tr st = (Return (Some (message e)), st')
        \<and> GetLastError st' = message e)
   \<and> (SendCommand tr st (''DEBUG ON'') = (Inr r, st') \<longrightarrow>
        GetLastError (snd (EnableDebug tr st)) = GetLastError st)
   \<and> (SendCommand tr st (''DEBUG OFF'') = (Inl e, st') \<longrightarrow>
        DisableDebug tr st = (Return (Some (message e)), st')
        \<and> GetLastError st' = message e)
   \<and> (SendCommand tr st (''DEBUG OFF'') = (Inr r, st') \<longrightarrow>
        GetLastError (snd (DisableDebug tr st)) = GetLastError st)"
proof -
  have a: "(SendCommand tr st command = (Inl e, st') \<longrightarrow> GetLastError st' = message e)"
    using SendCommand_Inl [of tr st command e st'] by (simp add: GetLastError_def)
  have b: "(sock st < 0 \<and> Connect sys st = (Some m, st') \<longrightarrow> GetLastError st' = m)"
    using Connect_failure_slot [of st sys m st'] by simp
  have u0: "(SendCommand tr st (Search_cmd table query limit offset and_terms not_terms filters sort_column sort_desc) = (Inl e, st') \<longrightarrow>
        Search stod tr st table query limit offset and_terms not_terms filters sort_column sort_desc = (Return (Inl e), st')
        \<and> GetLastError st' = message e)"
    using SendCommand_Inl [of tr st "Search_cmd table query limit offset and_terms not_terms filters sort_column sort_desc" e st'] by (simp add: Search_unsent GetLastError_def)
  have s0: "(SendCommand tr st (Search_cmd table query limit offset and_terms not_terms filters sort_column sort_desc) = (Inr r, st') \<longrightarrow>
        GetLastError (snd (Search stod tr st table query limit offset and_terms not_terms filters sort_column sort_desc)) = GetLastError st)"
    by (simp add: Search_sent)
  have u1: "(SendCommand tr st (Count_cmd table query and_terms not_terms filters) = (Inl e, st') \<longrightarrow>
        Count stod tr st table query and_terms not_terms filters = (Return (Inl e), st')
        \<and> GetLastError st' = message e)"
    using SendCommand_Inl [of tr st "Count_cmd table query and_terms not_terms filters" e st'] by (simp add: Count_unsent GetLastError_def)
  have s1: "(SendCommand tr st (Count_cmd table query and_terms not_terms filters) = (Inr r, st') \<longrightarrow>
        GetLastError (snd (Count stod tr st table query and_terms not_terms filters)) = GetLastError st)"
    by (simp add: Count_sent)
  have u2: "(SendCommand tr st (''GET '' @ table @ '' '' @ pk) = (Inl e, st') \<longrightarrow>
        Get tr st table pk = (Return (Inl e), st')
        \<and> GetLastError st' = message e)"
    using SendCommand_Inl [of tr st "''GET '' @ table @ '' '' @ pk" e st'] by (simp add: Get_unsent GetLastError_def)
  have s2: "(SendCommand tr st (''GET '' @ table @ '' '' @ pk) = (Inr r, st') \<longrightarrow>
        GetLastError (snd (Get tr st table pk)) = GetLastError st)"
    by (simp add: Get_sent)
  have u3: "(SendCommand tr st (''INFO'') = (Inl e, st') \<longrightarrow>
        Info tr st = (Return (Inl e), st')
        \<and> GetLastError st' = message e)"
    using SendCommand_Inl [of tr st "''INFO''" e st'] by (simp add: Info_unsent GetLastError_def)
  have s3: "(SendCommand tr st (''INFO'') = (Inr r, st') \<longrightarrow>
        GetLastError (snd (Info tr st)) = GetLastError st)"
    by (simp add: Info_sent)
  have u4: "(SendCommand tr st (''REPLICATION STATUS'') = (Inl e, st') \<longrightarrow>
        GetReplicationStatus tr st = (Return (Inl e), st')
        \<and> GetLastError st' = message e)"
    using SendCommand_Inl [of tr st "''REPLICATION STATUS''" e st'] by (simp add: GetReplicationStatus_unsent GetLastError_def)
  have s4: "(SendCommand tr st (''REPLICATION STATUS'') = (Inr r, st') \<longrightarrow>
        GetLastError (snd (GetReplicationStatus tr st)) = GetLastError st)"
    by (simp add: GetReplicationStatus_sent)
  have u5: "(SendCommand tr st (''CONFIG'') = (Inl e, st') \<longrightarrow>
        GetConfig tr st = (Return (Inl e), st')
        \<and> GetLastError st' = message e)"
    using SendCommand_Inl [of tr st "''CONFIG''" e st'] by (simp add: GetConfig_unsent GetLastError_def)
  have s5: "(SendCommand tr st (''CONFIG'') = (Inr r, st') \<longrightarrow>
        GetLastError (snd (GetConfig tr st)) = GetLastError st)"
    by (simp add: GetConfig_sent)
  have u6: "(SendCommand tr st (if filepath = [] then ''SAVE'' else ''SAVE '' @ filepath) = (Inl e, st') \<longrightarrow>
        Save tr st filepath = (Return (Inl e), st')
        \<and> GetLastError st' = message e)"
    using SendCommand_Inl [of tr st "if filepath = [] then ''SAVE'' else ''SAVE '' @ filepath" e st'] by (simp add: Save_unsent GetLastError_def)
  have s6: "(SendCommand tr st (if filepath = [] then ''SAVE'' else ''SAVE '' @ filepath) = (Inr r, st') \<longrightarrow>
        GetLastError (snd (Save tr st filepath)) = GetLastError st)"
    by (simp add: Save_sent)
  have u7: "(SendCommand tr st (''LOAD '' @ filepath) = (Inl e, st') \<longrightarrow>
        Load tr st filepath = (Return (Inl e), st')
        \<and> GetLastError st' = message e)"
    using SendCommand_Inl [of tr st "''LOAD '' @ filepath" e st'] by (simp add: Load_unsent GetLastError_def)
  have s7: "(SendCommand tr st (''LOAD '' @ filepath) = (Inr r, st') \<longrightarrow>
        GetLastError (snd (Load tr st filepath)) = GetLastError st)"
    by (simp add: Load_sent)
  have u8: "(SendCommand tr st (''REPLICATION STOP'') = (Inl e, st') \<longrightarrow>
        StopReplication tr st = (Return (Some (message e)), st')
        \<and> GetLastError st' = message e)"
    using SendCommand_Inl [of tr st "''REPLICATION STOP''" e st'] by (simp add: StopReplication_unsent GetLastError_def)
  have s8: "(SendCommand tr st (''REPLICATION STOP'') = (Inr r, st') \<longrightarrow>
        GetLastError (snd (StopReplication tr st)) = GetLastError st)"
    by (simp add: StopReplication_sent)
  have u9: "(SendCommand tr st (''REPLICATION START'') = (Inl e, st') \<longrightarrow>
        StartReplication tr st = (Return (Some (message e)), st')
        \<and> GetLastError st' = message e)"
    using SendCommand_Inl [of tr st "''REPLICATION START''" e st'] by (simp add: StartReplication_unsent GetLastError_def)
  have s9: "(SendCommand tr st (''REPLICATION START'') = (Inr r, st') \<longrightarrow>
        GetLastError (snd (StartReplication tr st)) = GetLastError st)"
    by (simp add: StartReplication_sent)
  have u10: "(SendCommand tr st (''DEBUG ON'') = (Inl e, st') \<longrightarrow>
        EnableDebug tr st = (Return (Some (message e)), st')
        \<and> GetLastError st' = message e)"
    using SendCommand_Inl [of tr st "''DEBUG ON''" e st'] by (simp add: EnableDebug_unsent GetLastError_def)
  have s10: "(SendCommand tr st (''DEBUG ON'') = (Inr r, st') \<longrightarrow>
        GetLastError (snd (EnableDebug tr st)) = GetLastError st)"
    by (simp add: EnableDebug_sent)
  have u11: "(SendCommand tr st (''DEBUG OFF'') = (Inl e, st') \<longrightarrow>
        DisableDebug tr st = (Return (Some (message e)), st')
        \<and> GetLastError st' = message e)"
    using SendCommand_Inl [of tr st "''DEBUG OFF''" e st'] by (simp add: DisableDebug_unsent GetLastError_def)
  have s11: "(SendCommand tr st (''DEBUG OFF'') = (Inr r, st') \<longrightarrow>
        GetLastError (snd (DisableDebug tr st)) = GetLastError st)"
    by (simp add: DisableDebug_sent)
  show ?thesis
    by (intro conjI a b u0 s0 u1 s1 u2 s2 u3 s3 u4 s4 u5 s5 u6 s6 u7 s7 u8 s8 u9 s9 u10 s10 u11 s11)
qed

theorem last_error_slot_witness:
  "SendCommand (answering []) connected_client ''INFO''
     = (Inl (Error ''Connection closed by server''),
        connected_client\<lparr>last_error := ''Connection closed by server''\<rparr>)
   \<and> Info (answering []) connected_client
     = (Return (Inl (Error ''Connection closed by server'')),
        connected_client\<lparr>last_error := ''Connection closed by server''\<rparr>)
   \<and> GetLastError (connected_client\<lparr>last_error := ''Connection closed by server''\<rparr>)
     = ''Connection closed by server''"
proof -
  have sent: "SendCommand (answering []) connected_client ''INFO''
     = (Inl (Error ''Connection closed by server''),
        connected_client\<lparr>last_error := ''Connection closed by server''\<rparr>)"
    using IsConnected_client by (simp add: SendCommand_def answering_def)
  show ?thesis
    using sent
      last_error_slot [where tr = "answering []" and st = connected_client
        and e = "Error ''Connection closed by server''"
        and st' = "connected_client\<lparr>last_error := ''Connection closed by server''\<rparr>"
        and command = "''INFO''" and sys = "\<lparr>socket_ret = 4, inet_pton_ret = 1, connect_ret = 0, strerror_errno = []\<rparr>" and m = "[]" and stod = Return
        and table = "[]" and query = "[]" and limit = 0 and offset = 0 and and_terms = "[]"
        and not_terms = "[]" and filters = "[]" and sort_column = "[]" and sort_desc = True
        and pk = "[]" and filepath = "[]" and r = "[]"]
    by simp
qed

text \<open>The claim as it was stated has the slot follow every returned error. A server error
  returned by Get leaves it empty, and so does the failure of a second \<^verbatim>\<open>Connect()\<close>.\<close>

theorem last_error_slot_counterexample:
  "fst (Get (answering (''ERROR no such table'' @ [CHR 0x0D, CHR 0x0A])) connected_client
          ''docs'' ''1'')
     = Return (Inl (Error ''no such table''))
   \<and> GetLastError (snd (Get (answering (''ERROR no such table'' @ [CHR 0x0D, CHR 0x0A]))
          connected_client ''docs'' ''1''))
     \<noteq> ''no such table''
   \<and> fst (Connect \<lparr>socket_ret = 4, inet_pton_ret = 1, connect_ret = 0, strerror_errno = []\<rparr> connected_client) = Some ''Already connected''
   \<and> GetLastError (snd (Connect \<lparr>socket_ret = 4, inet_pton_ret = 1, connect_ret = 0, strerror_errno = []\<rparr> connected_client)) \<noteq> ''Already connected''"
proof -
  have "GetLastError connected_client = []"
    by (simp add: GetLastError_def connected_client_def Impl_init_def)
  moreover have "Connect \<lparr>socket_ret = 4, inet_pton_ret = 1, connect_ret = 0, strerror_errno = []\<rparr> connected_client = (Some ''Already connected'', connected_client)"
    using IsConnected_client by (simp add: Connect_def IsConnected_def)
  ultimately show ?thesis
    using strip_no_such_table
    by (simp add: Get_answering IsConnected_client Get_response_ERROR substr_cases)
qed

section \<open>Reading the response of a search\<close>

lemma isspace_not_digit: "isdigit c \<Longrightarrow> \<not> isspace c"
  by (auto simp: isdigit_def isspace_def)

lemma digits_value_snoc:
  "digits_value (ds @ [c]) = 10 * digits_value ds + ((of_char c :: nat) - 48)"
  by (simp add: digits_value_def)

lemma decimal_digit_char: "k < 10 \<Longrightarrow> (of_char (char_of (48 + k :: nat)) :: nat) = 48 + k"
  by (simp add: of_char_of)

lemma decimal_nonempty: "decimal n \<noteq> []"
  by (subst decimal.simps) simp

lemma decimal_digits: "list_all isdigit (decimal n)"
proof (induction n rule: decimal.induct)
  case (1 n)
  have last_digit: "isdigit (char_of (48 + n mod 10))"
    using decimal_digit_char [of "n mod 10"] by (simp add: isdigit_def)
  show ?case
  proof (cases "n < 10")
    case True
    then have "decimal n = [char_of (48 + n)]" by (subst decimal.simps) simp
    moreover have "n mod 10 = n" using True by simp
    ultimately show ?thesis using last_digit by simp
  next
    case False
    then have "decimal n = decimal (n div 10) @ [char_of (48 + n mod 10)]"
      by (subst decimal.simps) simp
    then show ?thesis using "1.IH" [OF False] last_digit by simp
  qed
qed

lemma digits_value_decimal: "digits_value (decimal n) = n"
proof (induction n rule: decimal.induct)
  case (1 n)
  show ?case
  proof (cases "n < 10")
    case True
    then have "decimal n = [] @ [char_of (48 + n)]" by (subst decimal.simps) simp
    then have "digits_value (decimal n) = (of_char (char_of (48 + n)) :: nat) - 48"
      by (simp only: digits_value_snoc) (simp add: digits_value_def)
    then show ?thesis using decimal_digit_char [OF True] by simp
  next
    case False
    then have "decimal n = decimal (n div 10) @ [char_of (48 + n mod 10)]"
      by (subst decimal.simps) simp
    then have "digits_value (decimal n) = 10 * (n div 10) + n mod 10"
      using "1.IH" [OF False] decimal_digit_char [of "n mod 10"]
      by (simp add: digits_value_snoc)
    then show ?thesis by simp
  qed
qed

text \<open>A token is a non-empty word without white space; \<open>spaced toks\<close> is the text in which
  every token is preceded by one space.\<close>

lemma takeWhile_token:
  "list_all nonspace t \<Longrightarrow> rest = [] \<or> isspace (hd rest) \<Longrightarrow>
     takeWhile nonspace (t @ rest) = t \<and> dropWhile nonspace (t @ rest) = rest"
proof (induction t)
  case Nil
  then show ?case by (cases rest) (auto simp: nonspace_def)
next
  case (Cons c t)
  then show ?case by simp
qed

lemma takeWhile_digits:
  "list_all isdigit ds \<Longrightarrow> rest = [] \<or> isspace (hd rest) \<Longrightarrow>
     takeWhile isdigit (ds @ rest) = ds \<and> dropWhile isdigit (ds @ rest) = rest"
proof (induction ds)
  case Nil
  then show ?case by (cases rest) (auto dest: isspace_not_digit)
next
  case (Cons c ds)
  then show ?case by simp
qed

lemma spaced_head:
  "concat (map (\<lambda>t. CHR 0x20 # t) toks) = [] \<or> isspace (hd (concat (map (\<lambda>t. CHR 0x20 # t) toks)))"
  by (cases toks) (auto simp: isspace_def)

lemma words_spaced:
  "\<forall>t\<in>set toks. t \<noteq> [] \<and> list_all nonspace t \<Longrightarrow>
     words (concat (map (\<lambda>t. CHR 0x20 # t) toks)) = toks"
proof (induction toks)
  case Nil
  show ?case by (subst words.simps) simp
next
  case (Cons t toks)
  let ?rest = "concat (map (\<lambda>t. CHR 0x20 # t) toks)"
  from Cons.prems have t: "t \<noteq> []" "list_all nonspace t" by simp_all
  then have "nonspace (hd t)" by (cases t) simp_all
  then have skip: "dropWhile isspace (CHR 0x20 # t @ ?rest) = t @ ?rest"
    using t(1) by (cases t) (auto simp: isspace_def nonspace_def)
  have cut: "takeWhile nonspace (t @ ?rest) = t" "dropWhile nonspace (t @ ?rest) = ?rest"
    using takeWhile_token [OF t(2) spaced_head [of toks]] by simp_all
  have "words (CHR 0x20 # t @ ?rest) = t # words ?rest"
    by (subst words.simps) (simp add: skip cut t(1) Let_def del: dropWhile.simps)
  moreover have "words ?rest = toks" using Cons by simp
  ultimately show ?case by simp
qed

lemma extract_count:
  assumes "n < 2 ^ 64" and "rest = [] \<or> isspace (hd rest)"
  shows "extract_uint64 old \<lparr>unread = CHR 0x20 # decimal n @ rest, failbit = False\<rparr>
           = (word_of_nat n, \<lparr>unread = rest, failbit = False\<rparr>)"
proof -
  obtain c cs where d: "decimal n = c # cs" using decimal_nonempty [of n] by (cases "decimal n") auto
  have dig: "list_all isdigit (c # cs)" using decimal_digits [of n] d by simp
  then have c: "isdigit c" by simp
  then have nosp: "\<not> isspace c" by (rule isspace_not_digit)
  have nosign: "c \<noteq> CHR ''-''" "c \<noteq> CHR ''+''" using c by (auto simp: isdigit_def)
  have skip: "dropWhile isspace (CHR 0x20 # decimal n @ rest) = (c # cs) @ rest"
    using nosp d by (simp add: isspace_def)
  have cut: "takeWhile isdigit ((c # cs) @ rest) = c # cs" "dropWhile isdigit ((c # cs) @ rest) = rest"
    using takeWhile_digits [OF dig assms(2)] by simp_all
  have scan: "scan_number ((c # cs) @ rest) = (False, c # cs, rest)"
    using cut nosign by (simp add: scan_number_def)
  have val: "digits_value (c # cs) = n" using digits_value_decimal [of n] d by simp
  show ?thesis
    unfolding extract_uint64_def
    using assms(1) by (simp add: skip scan val del: dropWhile.simps append.simps)
qed

lemma debug_index_takeWhile:
  "debug_index toks = length (takeWhile (\<lambda>t. t \<noteq> ''DEBUG'') toks)"
  by (induction toks) auto

lemma take_debug_index: "take (debug_index toks) toks = takeWhile (\<lambda>t. t \<noteq> ''DEBUG'') toks"
  by (induction toks) auto

lemma drop_debug_index:
  "drop (debug_index toks + 1) toks = drop 1 (dropWhile (\<lambda>t. t \<noteq> ''DEBUG'') toks)"
  by (induction toks) auto

lemma debug_index_less: "(debug_index toks < length toks) = (''DEBUG'' \<in> set toks)"
  by (induction toks) auto

lemma nth_debug_index: "''DEBUG'' \<in> set toks \<Longrightarrow> toks ! debug_index toks = ''DEBUG''"
  by (induction toks) auto

lemma ParseDebugInfo_at_marker:
  "''DEBUG'' \<in> set toks \<Longrightarrow>
     ParseDebugInfo stod toks (debug_index toks)
       = map_raises Some
           (debug_tokens stod (drop 1 (dropWhile (\<lambda>t. t \<noteq> ''DEBUG'') toks)) DebugInfo_init)"
  using debug_index_less [of toks] nth_debug_index [of toks] drop_debug_index [of toks]
  by (simp add: ParseDebugInfo_def)

lemma Search_response_results:
  assumes n: "n < 2 ^ 64" and toks: "\<forall>t\<in>set toks. t \<noteq> [] \<and> list_all nonspace t"
  shows "Search_response stod (''OK RESULTS '' @ decimal n @ concat (map (\<lambda>t. CHR 0x20 # t) toks))
    = (if ''DEBUG'' \<in> set toks then
         map_raises
           (\<lambda>d. Inr \<lparr>total_count = word_of_nat n,
                      results = takeWhile (\<lambda>t. t \<noteq> ''DEBUG'') toks, debug = Some d\<rparr>)
           (debug_tokens stod (drop 1 (dropWhile (\<lambda>t. t \<noteq> ''DEBUG'') toks)) DebugInfo_init)
       else Return (Inr \<lparr>total_count = word_of_nat n, results = toks, debug = None\<rparr>))"
proof -
  let ?rest = "concat (map (\<lambda>t. CHR 0x20 # t) toks)"
  let ?r = "''OK RESULTS '' @ decimal n @ ?rest"
  have e: "str_find ?r ''ERROR'' \<noteq> Some 0" by (simp add: find_ERROR)
  have v: "str_find ?r ''OK RESULTS'' = Some 0" by (simp add: str_find_zero)
  have s1: "extract_string [] (istringstream ?r)
      = (''OK'', \<lparr>unread = '' RESULTS '' @ decimal n @ ?rest, failbit = False\<rparr>)"
    by (simp add: extract_string_def istringstream_def isspace_def nonspace_def)
  have s2: "extract_string [] \<lparr>unread = '' RESULTS '' @ decimal n @ ?rest, failbit = False\<rparr>
      = (''RESULTS'', \<lparr>unread = CHR 0x20 # decimal n @ ?rest, failbit = False\<rparr>)"
    by (simp add: extract_string_def isspace_def nonspace_def)
  have s3: "extract_uint64 0 \<lparr>unread = CHR 0x20 # decimal n @ ?rest, failbit = False\<rparr>
      = (word_of_nat n, \<lparr>unread = ?rest, failbit = False\<rparr>)"
    by (rule extract_count [OF n spaced_head])
  have s4: "read_tokens \<lparr>unread = ?rest, failbit = False\<rparr> = toks"
    using words_spaced [OF toks] by (simp add: read_tokens_def)
  have all: "\<not> ''DEBUG'' \<in> set toks \<Longrightarrow> takeWhile (\<lambda>t. t \<noteq> ''DEBUG'') toks = toks"
    by (auto simp: takeWhile_eq_all_conv)
  show ?thesis
    unfolding Search_response_def
    by (simp only: e v s1 s2 s3 s4 Let_def prod.case if_False if_True simp_thms
          debug_index_less take_debug_index)
       (auto simp: ParseDebugInfo_at_marker raises.map_comp comp_def all)
qed

lemma debug_token_ignored:
  "\<forall>k v. split_pair token = Some (k, v) \<longrightarrow> k \<notin> {''query_time'', ''index_time'', ''filter_time'', ''terms'', ''ngrams'', ''candidates'', ''after_intersection'', ''after_not'', ''after_filters'', ''final'', ''optimization''} \<Longrightarrow>
     debug_token stod info token = Return info"
  by (auto simp: debug_token_def split_pair_def Let_def split: option.splits)

lemma debug_token_key0:
  "debug_token stod info (''query_time='' @ x)
       = map_raises (\<lambda>v. info\<lparr>query_time_ms := Some v\<rparr>) (stod x)"
  by (simp add: debug_token_def)

lemma debug_token_key1:
  "debug_token stod info (''index_time='' @ x)
       = map_raises (\<lambda>v. info\<lparr>index_time_ms := Some v\<rparr>) (stod x)"
  by (simp add: debug_token_def)

lemma debug_token_key2:
  "debug_token stod info (''filter_time='' @ x)
       = map_raises (\<lambda>v. info\<lparr>filter_time_ms := Some v\<rparr>) (stod x)"
  by (simp add: debug_token_def)

lemma debug_token_key3:
  "debug_token stod info (''terms='' @ x)
       = map_raises (\<lambda>v. info\<lparr>terms := Some (ucast v)\<rparr>) (stoul x)"
  by (simp add: debug_token_def)

lemma debug_token_key4:
  "debug_token stod info (''ngrams='' @ x)
       = map_raises (\<lambda>v. info\<lparr>ngrams := Some (ucast v)\<rparr>) (stoul x)"
  by (simp add: debug_token_def)

lemma debug_token_key5:
  "debug_token stod info (''candidates='' @ x)
       = map_raises (\<lambda>v. info\<lparr>candidates := Some v\<rparr>) (stoull x)"
  by (simp add: debug_token_def)

lemma debug_token_key6:
  "debug_token stod info (''after_intersection='' @ x)
       = map_raises (\<lambda>v. info\<lparr>after_intersection := Some v\<rparr>) (stoull x)"
  by (simp add: debug_token_def)

lemma debug_token_key7:
  "debug_token stod info (''after_not='' @ x)
       = map_raises (\<lambda>v. info\<lparr>after_not := Some v\<rparr>) (stoull x)"
  by (simp add: debug_token_def)

lemma debug_token_key8:
  "debug_token stod info (''after_filters='' @ x)
       = map_raises (\<lambda>v. info\<lparr>after_filters := Some v\<rparr>) (stoull x)"
  by (simp add: debug_token_def)

lemma debug_token_key9:
  "debug_token stod info (''final='' @ x)
       = map_raises (\<lambda>v. info\<lparr>final := Some v\<rparr>) (stoull x)"
  by (simp add: debug_token_def)

lemma debug_token_key10:
  "debug_token stod info (''optimization='' @ x) = Return (info\<lparr>optimization := Some x\<rparr>)"
  by (simp add: debug_token_def)

lemma Search_response_example1:
  "Search_response stod ''OK RESULTS 3 a1 a2 a3''
     = Return (Inr \<lparr>total_count = 3, results = [''a1'', ''a2'', ''a3''], debug = None\<rparr>)"
  by (simp add: Search_response_def istringstream_def extract_string_def extract_uint64_def
      read_tokens_def isspace_def nonspace_def scan_number_def isdigit_def digits_value_def
      words.simps)

lemma Search_response_example2:
  "stod ''1.5'' = Return d \<Longrightarrow>
   Search_response stod ''OK RESULTS 2 x1 x2 DEBUG query_time=1.5 terms=3''
     = Return (Inr \<lparr>total_count = 2, results = [''x1'', ''x2''],
                      debug = Some (DebugInfo_init\<lparr>query_time_ms := Some d, terms := Some 3\<rparr>)\<rparr>)"
  by (simp add: Search_response_def istringstream_def extract_string_def extract_uint64_def
      read_tokens_def isspace_def nonspace_def scan_number_def isdigit_def digits_value_def
      words.simps ParseDebugInfo_def debug_token_def stoul_def stoull_def DebugInfo_init_def)

text \<open>
  Claim C4. For a response \<^verbatim>\<open>OK RESULTS <n> <token> ...\<close> (\<open>n\<close> a decimal number below
  \<open>2^64\<close>, the tokens separated by spaces) Search returns \<open>n\<close> as total count. Without a
  \<^verbatim>\<open>DEBUG\<close> token all tokens are the result identifiers, in order, and there is no debug
  information. With one, the tokens before the first \<^verbatim>\<open>DEBUG\<close> are the identifiers
  and the tokens after it are read one after the other into the debug information: a token
  \<^verbatim>\<open>key=value\<close> with one of the eleven known keys sets that key's field from the value
  (the search fails with the conversion's exception when a numeric value cannot be
  converted), and a token without \<^verbatim>\<open>=\<close> or with any other key is ignored.
  \<^verbatim>\<open>OK RESULTS 3 a1 a2 a3\<close> gives total count 3, results a1, a2, a3 and no debug
  information; \<^verbatim>\<open>OK RESULTS 2 x1 x2 DEBUG query_time=1.5 terms=3\<close> gives results x1, x2,
  query time \<^verbatim>\<open>stod("1.5")\<close> and terms 3.
\<close>

theorem Search_results_parsed:
  "(SendCommand tr st (Search_cmd table query limit offset and_terms not_terms filters sort_column sort_desc)
        = (Inr (''OK RESULTS '' @ decimal n @ concat (map (\<lambda>t. CHR 0x20 # t) toks)), st')
      \<and> n < 2 ^ 64 \<and> (\<forall>t\<in>set toks. t \<noteq> [] \<and> list_all nonspace t) \<longrightarrow>
      unat (word_of_nat n :: 64 word) = n
      \<and> (''DEBUG'' \<notin> set toks \<longrightarrow>
           fst (Search stod tr st table query limit offset and_terms not_terms filters sort_column sort_desc)
             = Return (Inr \<lparr>total_count = word_of_nat n, results = toks, debug = None\<rparr>))
      \<and> (''DEBUG'' \<in> set toks \<longrightarrow>
           fst (Search stod tr st table query limit offset and_terms not_terms filters sort_column sort_desc)
             = map_raises
                 (\<lambda>d. Inr \<lparr>total_count = word_of_nat n,
                            results = takeWhile (\<lambda>t. t \<noteq> ''DEBUG'') toks, debug = Some d\<rparr>)
                 (debug_tokens stod (drop 1 (dropWhile (\<lambda>t. t \<noteq> ''DEBUG'') toks))
                    DebugInfo_init)))
   \<and> debug_tokens stod [] info = Return info
   \<and> debug_tokens stod (token # rest) info
       = (case debug_token stod info token of
            Raise e \<Rightarrow> Raise e
          | Return info' \<Rightarrow> debug_tokens stod rest info')
   \<and> ((\<forall>k v. split_pair token = Some (k, v) \<longrightarrow> k \<notin> {''query_time'', ''index_time'', ''filter_time'', ''terms'', ''ngrams'', ''candidates'', ''after_intersection'', ''after_not'', ''after_filters'', ''final'', ''optimization''}) \<longrightarrow>
        debug_token stod info token = Return info)
   \<and> debug_token stod info (''query_time='' @ x)
       = map_raises (\<lambda>v. info\<lparr>query_time_ms := Some v\<rparr>) (stod x)
   \<and> debug_token stod info (''index_time='' @ x)
       = map_raises (\<lambda>v. info\<lparr>index_time_ms := Some v\<rparr>) (stod x)
   \<and> debug_token stod info (''filter_time='' @ x)
       = map_raises (\<lambda>v. info\<lparr>filter_time_ms := Some v\<rparr>) (stod x)
   \<and> debug_token stod info (''terms='' @ x)
       = map_raises (\<lambda>v. info\<lparr>terms := Some (ucast v)\<rparr>) (stoul x)
   \<and> debug_token stod info (''ngrams='' @ x)
       = map_raises (\<lambda>v. info\<lparr>ngrams := Some (ucast v)\<rparr>) (stoul x)
   \<and> debug_token stod info (''candidates='' @ x)
       = map_raises (\<lambda>v. info\<lparr>candidates := Some v\<rparr>) (stoull x)
   \<and> debug_token stod info (''after_intersection='' @ x)
       = map_raises (\<lambda>v. info\<lparr>after_intersection := Some v\<rparr>) (stoull x)
   \<and> debug_token stod info (''after_not='' @ x)
       = map_raises (\<lambda>v. info\<lparr>after_not := Some v\<rparr>) (stoull x)
   \<and> debug_token stod info (''after_filters='' @ x)
       = map_raises (\<lambda>v. info\<lparr>after_filters := Some v\<rparr>) (stoull x)
   \<and> debug_token stod info (''final='' @ x)
       = map_raises (\<lambda>v. info\<lparr>final := Some v\<rparr>) (stoull x)
   \<and> debug_token stod info (''optimization='' @ x) = Return (info\<lparr>optimization := Some x\<rparr>)
   \<and> fst (Search stod (answering (''OK RESULTS 3 a1 a2 a3'' @ [CHR 0x0D, CHR 0x0A])) connected_client
          table query limit offset and_terms not_terms filters sort_column sort_desc)
       = Return (Inr \<lparr>total_count = 3, results = [''a1'', ''a2'', ''a3''], debug = None\<rparr>)
   \<and> (stod ''1.5'' = Return d \<longrightarrow>
        fst (Search stod
               (answering (''OK RESULTS 2 x1 x2 DEBUG query_time=1.5 terms=3'' @ [CHR 0x0D, CHR 0x0A]))
               connected_client table query limit offset and_terms not_terms filters sort_column sort_desc)
          = Return (Inr \<lparr>total_count = 2, results = [''x1'', ''x2''],
                           debug = Some (DebugInfo_init\<lparr>query_time_ms := Some d, terms := Some 3\<rparr>)\<rparr>))"
proof -
  have general: "(SendCommand tr st (Search_cmd table query limit offset and_terms not_terms filters sort_column sort_desc)
        = (Inr (''OK RESULTS '' @ decimal n @ concat (map (\<lambda>t. CHR 0x20 # t) toks)), st')
      \<and> n < 2 ^ 64 \<and> (\<forall>t\<in>set toks. t \<noteq> [] \<and> list_all nonspace t) \<longrightarrow>
      unat (word_of_nat n :: 64 word) = n
      \<and> (''DEBUG'' \<notin> set toks \<longrightarrow>
           fst (Search stod tr st table query limit offset and_terms not_terms filters sort_column sort_desc)
             = Return (Inr \<lparr>total_count = word_of_nat n, results = toks, debug = None\<rparr>))
      \<and> (''DEBUG'' \<in> set toks \<longrightarrow>
           fst (Search stod tr st table query limit offset and_terms not_terms filters sort_column sort_desc)
             = map_raises
                 (\<lambda>d. Inr \<lparr>total_count = word_of_nat n,
                            results = takeWhile (\<lambda>t. t \<noteq> ''DEBUG'') toks, debug = Some d\<rparr>)
                 (debug_tokens stod (drop 1 (dropWhile (\<lambda>t. t \<noteq> ''DEBUG'') toks))
                    DebugInfo_init)))"
  proof (intro impI, elim conjE)
    assume sent: "SendCommand tr st (Search_cmd table query limit offset and_terms not_terms filters sort_column sort_desc)
        = (Inr (''OK RESULTS '' @ decimal n @ concat (map (\<lambda>t. CHR 0x20 # t) toks)), st')"
      and n: "n < 2 ^ 64" and toks: "\<forall>t\<in>set toks. t \<noteq> [] \<and> list_all nonspace t"
    have "unat (word_of_nat n :: 64 word) = n"
      using n by (simp add: unat_of_nat)
    moreover have "fst (Search stod tr st table query limit offset and_terms not_terms filters sort_column sort_desc)
        = Search_response stod (''OK RESULTS '' @ decimal n @ concat (map (\<lambda>t. CHR 0x20 # t) toks))"
      using Search_sent [OF sent, where stod = stod] by simp
    ultimately show "unat (word_of_nat n :: 64 word) = n
      \<and> (''DEBUG'' \<notin> set toks \<longrightarrow>
           fst (Search stod tr st table query limit offset and_terms not_terms filters sort_column sort_desc)
             = Return (Inr \<lparr>total_count = word_of_nat n, results = toks, debug = None\<rparr>))
      \<and> (''DEBUG'' \<in> set toks \<longrightarrow>
           fst (Search stod tr st table query limit offset and_terms not_terms filters sort_column sort_desc)
             = map_raises
                 (\<lambda>d. Inr \<lparr>total_count = word_of_nat n,
                            results = takeWhile (\<lambda>t. t \<noteq> ''DEBUG'') toks, debug = Some d\<rparr>)
                 (debug_tokens stod (drop 1 (dropWhile (\<lambda>t. t \<noteq> ''DEBUG'') toks))
                    DebugInfo_init))"
      using Search_response_results [OF n toks, of stod] by simp
  qed
  have fold: "debug_tokens stod [] info = Return info
   \<and> debug_tokens stod (token # rest) info
       = (case debug_token stod info token of
            Raise e \<Rightarrow> Raise e
          | Return info' \<Rightarrow> debug_tokens stod rest info')"
    by simp
  have ignored: "((\<forall>k v. split_pair token = Some (k, v) \<longrightarrow> k \<notin> {''query_time'', ''index_time'', ''filter_time'', ''terms'', ''ngrams'', ''candidates'', ''after_intersection'', ''after_not'', ''after_filters'', ''final'', ''optimization''}) \<longrightarrow>
        debug_token stod info token = Return info)"
    using debug_token_ignored [of token stod info] by blast
  have strip: "strip_trailing (''OK RESULTS 3 a1 a2 a3'' @ [CHR 0x0D, CHR 0x0A])
        = ''OK RESULTS 3 a1 a2 a3''"
      "strip_trailing (''OK RESULTS 2 x1 x2 DEBUG query_time=1.5 terms=3'' @ [CHR 0x0D, CHR 0x0A])
        = ''OK RESULTS 2 x1 x2 DEBUG query_time=1.5 terms=3''"
    by (simp_all add: strip_trailing.simps)
  have ex1: "fst (Search stod (answering (''OK RESULTS 3 a1 a2 a3'' @ [CHR 0x0D, CHR 0x0A])) connected_client
          table query limit offset and_terms not_terms filters sort_column sort_desc)
       = Return (Inr \<lparr>total_count = 3, results = [''a1'', ''a2'', ''a3''], debug = None\<rparr>)"
    using strip(1) Search_response_example1 [of stod]
    by (simp add: Search_answering IsConnected_client)
  have ex2: "(stod ''1.5'' = Return d \<longrightarrow>
        fst (Search stod
               (answering (''OK RESULTS 2 x1 x2 DEBUG query_time=1.5 terms=3'' @ [CHR 0x0D, CHR 0x0A]))
               connected_client table query limit offset and_terms not_terms filters sort_column sort_desc)
          = Return (Inr \<lparr>total_count = 2, results = [''x1'', ''x2''],
                           debug = Some (DebugInfo_init\<lparr>query_time_ms := Some d, terms := Some 3\<rparr>)\<rparr>))"
    using strip(2) Search_response_example2 [of stod d]
    by (simp add: Search_answering IsConnected_client)
  show ?thesis
    by (intro conjI general fold [THEN conjunct1] fold [THEN conjunct2] ignored
        debug_token_key0 debug_token_key1 debug_token_key2 debug_token_key3 debug_token_key4 debug_token_key5 debug_token_key6 debug_token_key7 debug_token_key8 debug_token_key9 debug_token_key10 ex1 ex2)
qed

text \<open>The witness runs with a conversion that keeps a value's text as it is.\<close>

theorem Search_results_parsed_witness:
  "SendCommand (answering (''OK RESULTS 41 b7 b9 DEBUG index_time=0.25 cache=hit final=2'' @ [CHR 0x0D, CHR 0x0A])) connected_client
       (Search_cmd ''docs'' ''hello'' 10 0 [] [] [] [] True)
     = (Inr ''OK RESULTS 41 b7 b9 DEBUG index_time=0.25 cache=hit final=2'', connected_client)
   \<and> (41 :: nat) < 2 ^ 64
   \<and> ''DEBUG'' \<in> set [''b7'', ''b9'', ''DEBUG'', ''index_time=0.25'', ''cache=hit'', ''final=2'']
   \<and> fst (Search Return (answering (''OK RESULTS 41 b7 b9 DEBUG index_time=0.25 cache=hit final=2'' @ [CHR 0x0D, CHR 0x0A])) connected_client ''docs'' ''hello'' 10 0 [] [] [] [] True)
     = Return (Inr \<lparr>total_count = 41, results = [''b7'', ''b9''],
                      debug = Some (DebugInfo_init\<lparr>index_time_ms := Some ''0.25'', final := Some 2\<rparr>)\<rparr>)
   \<and> fst (Search Return
            (answering (''OK RESULTS 2 x1 x2 DEBUG query_time=1.5 terms=3'' @ [CHR 0x0D, CHR 0x0A]))
            connected_client ''docs'' ''hello'' 10 0 [] [] [] [] True)
     = Return (Inr \<lparr>total_count = 2, results = [''x1'', ''x2''],
                      debug = Some (DebugInfo_init\<lparr>query_time_ms := Some ''1.5'', terms := Some 3\<rparr>)\<rparr>)"
proof -
  have r: "''OK RESULTS 41 b7 b9 DEBUG index_time=0.25 cache=hit final=2''
      = ''OK RESULTS '' @ decimal 41 @ concat (map (\<lambda>t. CHR 0x20 # t) [''b7'', ''b9'', ''DEBUG'', ''index_time=0.25'', ''cache=hit'', ''final=2''])"
  proof -
    have "decimal 41 = ''41''" by code_simp
    then show ?thesis by simp
  qed
  have sent: "SendCommand (answering (''OK RESULTS 41 b7 b9 DEBUG index_time=0.25 cache=hit final=2'' @ [CHR 0x0D, CHR 0x0A])) connected_client
       (Search_cmd ''docs'' ''hello'' 10 0 [] [] [] [] True)
     = (Inr ''OK RESULTS 41 b7 b9 DEBUG index_time=0.25 cache=hit final=2'', connected_client)"
    by (simp add: SendCommand_answering IsConnected_client strip_trailing.simps)
  have toks: "\<forall>t\<in>set [''b7'', ''b9'', ''DEBUG'', ''index_time=0.25'', ''cache=hit'', ''final=2'']. t \<noteq> [] \<and> list_all nonspace t"
    by (simp add: nonspace_def isspace_def)
  have dbg: "debug_tokens Return [''index_time=0.25'', ''cache=hit'', ''final=2''] DebugInfo_init
      = Return (DebugInfo_init\<lparr>index_time_ms := Some ''0.25'', final := Some 2\<rparr>)"
    by (simp add: debug_token_def stoull_def scan_number_def isdigit_def isspace_def
        digits_value_def DebugInfo_init_def)
  note at = Search_results_parsed [where stod = Return and tr = "answering (''OK RESULTS 41 b7 b9 DEBUG index_time=0.25 cache=hit final=2'' @ [CHR 0x0D, CHR 0x0A])"
      and st = connected_client and st' = connected_client and n = 41
      and toks = "[''b7'', ''b9'', ''DEBUG'', ''index_time=0.25'', ''cache=hit'', ''final=2'']"
      and table = "''docs''" and query = "''hello''" and limit = 10 and offset = 0
      and and_terms = "[]" and not_terms = "[]" and filters = "[]" and sort_column = "[]"
      and sort_desc = True and d = "''1.5''" and info = DebugInfo_init and token = "[]"
      and rest = "[]" and x = "[]"]
  show ?thesis
    using at sent toks dbg unfolding r [symmetric]
    by simp
qed

end
